theory Spec2Isabelle
  imports Main
begin

section \<open>Filter statistics propagation (propagate\_filter.cpp)\<close>

text \<open>
  A shallow embedding of \<^verbatim>\<open>src/optimizer/statistics/operator/propagate_filter.cpp\<close>:
  the constant-fold checks, the narrowing of column statistics after a comparison that
  passed, and the simplification of a filter node. Every function of that file is a
  definition below, under the name it has in the source; the four overloads of
  \<^verbatim>\<open>UpdateFilterStatistics\<close> carry a suffix that names their arguments.
\<close>

subsection \<open>Data model\<close>

text \<open>
  The headers that declare the types used by the file are not part of this embedding.
  The types below carry exactly the members that propagate\_filter.cpp reads and writes.
\<close>

text \<open>
  Modelled from the spec: \<^verbatim>\<open>LogicalType\<close>, declared outside propagate\_filter.cpp, the
  logical type of a typed scalar and of column statistics. The file asks a type whether it
  \<^verbatim>\<open>IsNumeric()\<close> (lines 41 and 80), asks whether two types are equal (lines 17 and 79),
  and builds boolean values. The two questions are independent: there are several numeric
  types, so two numeric statistics may differ in type, and the assertion of line 79 can
  fail for them.
\<close>

datatype LogicalType = BOOLEAN | INTEGER | BIGINT | VARCHAR

fun IsNumeric :: "LogicalType \<Rightarrow> bool" where
  "IsNumeric INTEGER = True"
| "IsNumeric BIGINT = True"
| "IsNumeric BOOLEAN = False"
| "IsNumeric VARCHAR = False"

text \<open>
  Modelled from the spec: the typed scalar \<^verbatim>\<open>Value\<close>, "a boxed, typed literal supporting
  equality, total ordering consistent with its logical type, and a null-check". A value is
  its logical type and its payload, \<open>None\<close> for SQL NULL; equality is equality of both.
  The order is the order of the payloads; the file compares two values only after it has
  checked that neither is NULL (line 86).
\<close>

datatype Value = Value (value_type: LogicalType) (payload: "int option")

definition IsNull :: "Value \<Rightarrow> bool" where
  "IsNull v = (payload v = None)"

definition Value_BOOLEAN :: "bool \<Rightarrow> Value" where
  "Value_BOOLEAN b = Value BOOLEAN (Some (if b then 1 else 0))"

definition Value_gt :: "Value \<Rightarrow> Value \<Rightarrow> bool" where
  "Value_gt a b = (case (payload a, payload b) of (Some x, Some y) \<Rightarrow> x > y | _ \<Rightarrow> False)"

definition Value_lt :: "Value \<Rightarrow> Value \<Rightarrow> bool" where
  "Value_lt a b = (case (payload a, payload b) of (Some x, Some y) \<Rightarrow> x < y | _ \<Rightarrow> False)"

text \<open>
  Modelled from the spec: \<^verbatim>\<open>ValidityStatistics\<close>, declared outside propagate\_filter.cpp,
  is the nullability flag of the specification (\<^verbatim>\<open>can_be_null\<close>). The file builds it as
  \<^verbatim>\<open>make_unique<ValidityStatistics>(false)\<close>: non-null.
\<close>

datatype ValidityStatistics = ValidityStatistics (can_be_null: bool)

text \<open>
  \<^verbatim>\<open>BaseStatistics\<close> with the members of its subclass \<^verbatim>\<open>NumericStatistics\<close>. The file
  reads \<^verbatim>\<open>min\<close> and \<^verbatim>\<open>max\<close> only behind \<^verbatim>\<open>type.IsNumeric()\<close>; for statistics of another
  type the two fields are never looked at. \<^verbatim>\<open>validity_stats\<close> is a
  \<^verbatim>\<open>unique_ptr\<close>, which may be null.
\<close>

record BaseStatistics =
  stats_type :: LogicalType
  validity_stats :: "ValidityStatistics option"
  min_value :: Value
  max_value :: Value

type_synonym ColumnBinding = "nat \<times> nat"

type_synonym statistics_map = "ColumnBinding \<rightharpoonup> BaseStatistics"

text \<open>
  The comparison types the file switches on, \<^verbatim>\<open>COMPARE_NOTEQUAL\<close> and a numbered
  rest for those that reach the \<^verbatim>\<open>default\<close> branches.
\<close>

datatype ExpressionType =
    COMPARE_EQUAL
  | COMPARE_NOTEQUAL
  | COMPARE_LESSTHAN
  | COMPARE_GREATERTHAN
  | COMPARE_LESSTHANOREQUALTO
  | COMPARE_GREATERTHANOREQUALTO
  | OTHER_EXPRESSION_TYPE nat

text \<open>
  Modelled from the spec: the expression classes, declared outside propagate\_filter.cpp,
  one constructor per class the file distinguishes (the specification's
  \<^verbatim>\<open>ColumnReference(binding)\<close>, \<^verbatim>\<open>Constant(value)\<close>, \<^verbatim>\<open>Comparison(left, right, type)\<close>,
  \<^verbatim>\<open>Between(input, lower, upper, lowerCmp, upperCmp)\<close>, \<^verbatim>\<open>FunctionCall(name, args)\<close> and
  the rest). A column reference has expression type \<^verbatim>\<open>BOUND_COLUMN_REF\<close> and a constant
  has \<^verbatim>\<open>VALUE_CONSTANT\<close>, so the tests on \<^verbatim>\<open>left.type\<close> and on
  \<^verbatim>\<open>GetExpressionClass()\<close> followed by a cast are pattern matches here.
  \<^verbatim>\<open>BoundBetweenExpression\<close> carries its input, lower and upper operands and the two
  comparators that \<^verbatim>\<open>LowerComparisonType()\<close> and \<^verbatim>\<open>UpperComparisonType()\<close> return.
  \<^verbatim>\<open>BoundFunctionExpression\<close> carries its name, its arguments and, when it is the
  recognised constant-or-null wrapper, the value it wraps.
\<close>

datatype Expression =
    BoundColumnRefExpression ColumnBinding
  | BoundConstantExpression Value
  | BoundComparisonExpression ExpressionType Expression Expression
  | BoundBetweenExpression Expression Expression Expression ExpressionType ExpressionType
  | BoundFunctionExpression string "Expression list" "Value option"
  | OtherExpression nat

text \<open>
  A failing \<^verbatim>\<open>D_ASSERT\<close> (lines 17 and 79) is the one way this file aborts the pass.
\<close>

datatype error = AssertionFailed

subsection \<open>Constant-fold checks\<close>

fun ExpressionIsConstant :: "Expression \<Rightarrow> Value \<Rightarrow> error + bool" where
  "ExpressionIsConstant (BoundConstantExpression v) val =
     (if value_type v \<noteq> value_type val then Inl AssertionFailed else Inr (v = val))"
| "ExpressionIsConstant (BoundColumnRefExpression b) val = Inr False"
| "ExpressionIsConstant (BoundComparisonExpression t l r) val = Inr False"
| "ExpressionIsConstant (BoundBetweenExpression i l u lc uc) val = Inr False"
| "ExpressionIsConstant (BoundFunctionExpression n args w) val = Inr False"
| "ExpressionIsConstant (OtherExpression k) val = Inr False"

text \<open>
  Modelled from the spec: \<^verbatim>\<open>ConstantOrNull::IsConstantOrNull\<close>, defined outside
  propagate\_filter.cpp: "true iff expr is a recognized wrapper function whose semantics are
  evaluate to either value or null".
\<close>

definition IsConstantOrNull :: "string \<Rightarrow> Expression list \<Rightarrow> Value option \<Rightarrow> Value \<Rightarrow> bool" where
  "IsConstantOrNull n args w val = (w = Some val)"

fun ExpressionIsConstantOrNull :: "Expression \<Rightarrow> Value \<Rightarrow> bool" where
  "ExpressionIsConstantOrNull (BoundFunctionExpression n args w) val = IsConstantOrNull n args w val"
| "ExpressionIsConstantOrNull (BoundColumnRefExpression b) val = False"
| "ExpressionIsConstantOrNull (BoundConstantExpression v) val = False"
| "ExpressionIsConstantOrNull (BoundComparisonExpression t l r) val = False"
| "ExpressionIsConstantOrNull (BoundBetweenExpression i l u lc uc) val = False"
| "ExpressionIsConstantOrNull (OtherExpression k) val = False"

subsection \<open>Narrowing column statistics\<close>

definition SetStatisticsNotNull :: "ColumnBinding \<Rightarrow> statistics_map \<Rightarrow> statistics_map" where
  "SetStatisticsNotNull binding statistics_map =
     (case statistics_map binding of
        None \<Rightarrow> statistics_map
      | Some entry \<Rightarrow>
          statistics_map(binding \<mapsto> entry\<lparr>validity_stats := Some (ValidityStatistics False)\<rparr>))"

text \<open>
  \<^verbatim>\<open>UpdateFilterStatistics(BaseStatistics &, ExpressionType, const Value &)\<close>, the
  specification's NarrowAgainstConstant. The statistics are changed in place; the model
  returns them.
\<close>

definition UpdateFilterStatistics_constant ::
  "BaseStatistics \<Rightarrow> ExpressionType \<Rightarrow> Value \<Rightarrow> BaseStatistics" where
  "UpdateFilterStatistics_constant stats0 comparison_type constant =
     (let stats = stats0\<lparr>validity_stats := Some (ValidityStatistics False)\<rparr> in
      if \<not> IsNumeric (stats_type stats) then stats
      else if IsNull (min_value stats) \<or> IsNull (max_value stats) then stats
      else (case comparison_type of
              COMPARE_LESSTHAN \<Rightarrow> stats\<lparr>max_value := constant\<rparr>
            | COMPARE_LESSTHANOREQUALTO \<Rightarrow> stats\<lparr>max_value := constant\<rparr>
            | COMPARE_GREATERTHAN \<Rightarrow> stats\<lparr>min_value := constant\<rparr>
            | COMPARE_GREATERTHANOREQUALTO \<Rightarrow> stats\<lparr>min_value := constant\<rparr>
            | COMPARE_EQUAL \<Rightarrow> stats\<lparr>min_value := constant, max_value := constant\<rparr>
            | COMPARE_NOTEQUAL \<Rightarrow> stats
            | OTHER_EXPRESSION_TYPE k \<Rightarrow> stats))"

text \<open>
  \<^verbatim>\<open>UpdateFilterStatistics(BaseStatistics &, BaseStatistics &, ExpressionType)\<close>, the
  specification's NarrowColumnPair, on two distinct statistics objects; the model returns
  both. Each \<open>let\<close> is one statement of the source and reads the fields as the statements
  before it left them.
\<close>

definition UpdateFilterStatistics_columns ::
  "BaseStatistics \<Rightarrow> BaseStatistics \<Rightarrow> ExpressionType \<Rightarrow> error + (BaseStatistics \<times> BaseStatistics)" where
  "UpdateFilterStatistics_columns lstats0 rstats0 comparison_type =
     (let lstats = lstats0\<lparr>validity_stats := Some (ValidityStatistics False)\<rparr>;
          rstats = rstats0\<lparr>validity_stats := Some (ValidityStatistics False)\<rparr> in
      if stats_type lstats \<noteq> stats_type rstats then Inl AssertionFailed
      else if \<not> IsNumeric (stats_type lstats) then Inr (lstats, rstats)
      else if IsNull (min_value lstats) \<or> IsNull (max_value lstats) \<or>
              IsNull (min_value rstats) \<or> IsNull (max_value rstats) then Inr (lstats, rstats)
      else (case comparison_type of
              COMPARE_LESSTHAN \<Rightarrow>
                (let left_stats = (if Value_gt (max_value lstats) (max_value rstats)
                                   then lstats\<lparr>max_value := max_value rstats\<rparr> else lstats);
                     right_stats = (if Value_lt (min_value rstats) (min_value left_stats)
                                    then rstats\<lparr>min_value := min_value left_stats\<rparr> else rstats)
                 in Inr (left_stats, right_stats))
            | COMPARE_LESSTHANOREQUALTO \<Rightarrow>
                (let left_stats = (if Value_gt (max_value lstats) (max_value rstats)
                                   then lstats\<lparr>max_value := max_value rstats\<rparr> else lstats);
                     right_stats = (if Value_lt (min_value rstats) (min_value left_stats)
                                    then rstats\<lparr>min_value := min_value left_stats\<rparr> else rstats)
                 in Inr (left_stats, right_stats))
            | COMPARE_GREATERTHAN \<Rightarrow>
                (let right_stats = (if Value_gt (max_value rstats) (max_value lstats)
                                    then rstats\<lparr>max_value := max_value lstats\<rparr> else rstats);
                     left_stats = (if Value_lt (min_value lstats) (min_value right_stats)
                                   then lstats\<lparr>min_value := min_value right_stats\<rparr> else lstats)
                 in Inr (left_stats, right_stats))
            | COMPARE_GREATERTHANOREQUALTO \<Rightarrow>
                (let right_stats = (if Value_gt (max_value rstats) (max_value lstats)
                                    then rstats\<lparr>max_value := max_value lstats\<rparr> else rstats);
                     left_stats = (if Value_lt (min_value lstats) (min_value right_stats)
                                   then lstats\<lparr>min_value := min_value right_stats\<rparr> else lstats)
                 in Inr (left_stats, right_stats))
            | COMPARE_EQUAL \<Rightarrow>
                (let (left_stats, right_stats) =
                       (if Value_gt (min_value lstats) (min_value rstats)
                        then (lstats, rstats\<lparr>min_value := min_value lstats\<rparr>)
                        else (lstats\<lparr>min_value := min_value rstats\<rparr>, rstats));
                     (left_stats, right_stats) =
                       (if Value_lt (max_value left_stats) (max_value right_stats)
                        then (left_stats, right_stats\<lparr>max_value := max_value left_stats\<rparr>)
                        else (left_stats\<lparr>max_value := max_value right_stats\<rparr>, right_stats))
                 in Inr (left_stats, right_stats))
            | COMPARE_NOTEQUAL \<Rightarrow> Inr (lstats, rstats)
            | OTHER_EXPRESSION_TYPE k \<Rightarrow> Inr (lstats, rstats)))"

text \<open>
  Modelled from the spec: \<^verbatim>\<open>FlipComparisionExpression\<close>, defined outside
  propagate\_filter.cpp: the mirror of a comparator, which swaps \<open><\<close> with \<open>>\<close> and
  \<open><=\<close> with \<open>>=\<close> and leaves the others as they are.
\<close>

fun FlipComparisionExpression :: "ExpressionType \<Rightarrow> ExpressionType" where
  "FlipComparisionExpression COMPARE_LESSTHAN = COMPARE_GREATERTHAN"
| "FlipComparisionExpression COMPARE_GREATERTHAN = COMPARE_LESSTHAN"
| "FlipComparisionExpression COMPARE_LESSTHANOREQUALTO = COMPARE_GREATERTHANOREQUALTO"
| "FlipComparisionExpression COMPARE_GREATERTHANOREQUALTO = COMPARE_LESSTHANOREQUALTO"
| "FlipComparisionExpression COMPARE_EQUAL = COMPARE_EQUAL"
| "FlipComparisionExpression COMPARE_NOTEQUAL = COMPARE_NOTEQUAL"
| "FlipComparisionExpression (OTHER_EXPRESSION_TYPE k) = OTHER_EXPRESSION_TYPE k"

text \<open>
  \<^verbatim>\<open>UpdateFilterStatistics(Expression &, Expression &, ExpressionType)\<close>, the
  specification's DispatchComparison. \<open>m1\<close> and \<open>m2\<close> are the store after lines 149-151 and
  152-154. The store owns one statistics object per binding: in the column-column case
  with both bindings equal the two references of the source are one object, every
  comparison of a bound with itself is false and every assignment that runs writes a field
  to itself, which is what storing the right-hand result does here.
\<close>

definition UpdateFilterStatistics_comparison ::
  "Expression \<Rightarrow> Expression \<Rightarrow> ExpressionType \<Rightarrow> statistics_map \<Rightarrow> error + statistics_map" where
  "UpdateFilterStatistics_comparison left right comparison_type statistics_map =
     (let m1 = (case left of BoundColumnRefExpression binding \<Rightarrow> SetStatisticsNotNull binding statistics_map
                | _ \<Rightarrow> statistics_map);
          m2 = (case right of BoundColumnRefExpression binding \<Rightarrow> SetStatisticsNotNull binding m1
                | _ \<Rightarrow> m1)
      in case left of
           BoundConstantExpression constant \<Rightarrow>
             (case right of
                BoundColumnRefExpression columnref \<Rightarrow>
                  (case m2 columnref of
                     None \<Rightarrow> Inr m2
                   | Some entry \<Rightarrow>
                       Inr (m2(columnref \<mapsto> UpdateFilterStatistics_constant entry
                                  (FlipComparisionExpression comparison_type) constant)))
              | _ \<Rightarrow> Inr m2)
         | BoundColumnRefExpression left_column_ref \<Rightarrow>
             (case right of
                BoundConstantExpression constant \<Rightarrow>
                  (case m2 left_column_ref of
                     None \<Rightarrow> Inr m2
                   | Some entry \<Rightarrow>
                       Inr (m2(left_column_ref \<mapsto>
                                 UpdateFilterStatistics_constant entry comparison_type constant)))
              | BoundColumnRefExpression right_column_ref \<Rightarrow>
                  (case m2 left_column_ref of
                     None \<Rightarrow> Inr m2
                   | Some lentry \<Rightarrow>
                       (case m2 right_column_ref of
                          None \<Rightarrow> Inr m2
                        | Some rentry \<Rightarrow>
                            (case UpdateFilterStatistics_columns lentry rentry comparison_type of
                               Inl e \<Rightarrow> Inl e
                             | Inr (lstats, rstats) \<Rightarrow>
                                 Inr (m2(left_column_ref \<mapsto> lstats, right_column_ref \<mapsto> rstats)))))
              | _ \<Rightarrow> Inr m2)
         | _ \<Rightarrow> Inr m2)"

text \<open>
  \<^verbatim>\<open>UpdateFilterStatistics(Expression &)\<close>, the specification's DispatchCondition.
\<close>

fun UpdateFilterStatistics_condition :: "Expression \<Rightarrow> statistics_map \<Rightarrow> error + statistics_map" where
  "UpdateFilterStatistics_condition (BoundBetweenExpression input lower upper lower_cmp upper_cmp) m =
     (case UpdateFilterStatistics_comparison input lower lower_cmp m of
        Inl e \<Rightarrow> Inl e
      | Inr m1 \<Rightarrow> UpdateFilterStatistics_comparison input upper upper_cmp m1)"
| "UpdateFilterStatistics_condition (BoundComparisonExpression type left right) m =
     UpdateFilterStatistics_comparison left right type m"
| "UpdateFilterStatistics_condition (BoundColumnRefExpression b) m = Inr m"
| "UpdateFilterStatistics_condition (BoundConstantExpression v) m = Inr m"
| "UpdateFilterStatistics_condition (BoundFunctionExpression n args w) m = Inr m"
| "UpdateFilterStatistics_condition (OtherExpression k) m = Inr m"

subsection \<open>The filter node\<close>

text \<open>
  Modelled from the spec: \<^verbatim>\<open>NodeStatistics\<close>, declared outside propagate\_filter.cpp, "an
  estimate of a plan subtree's output, carrying at minimum a maximum-cardinality bound and
  an exact flag". The file builds one value of it itself, \<^verbatim>\<open>NodeStatistics(0, 0)\<close>, which
  the specification reads as \<^verbatim>\<open>NodeStatistics{cardinality = 0, exact = true}\<close>.
\<close>

record NodeStatistics =
  max_cardinality :: nat
  exact :: bool

definition NodeStatistics_0_0 :: NodeStatistics where
  "NodeStatistics_0_0 = \<lparr>max_cardinality = 0, exact = True\<rparr>"

text \<open>
  Modelled from the spec: the plan nodes, declared outside propagate\_filter.cpp: the filter
  with its ordered predicate list and its single child, the zero-row sentinel
  (\<^verbatim>\<open>LOGICAL_EMPTY_RESULT\<close>) and any other operator. \<^verbatim>\<open>ReplaceWithEmptyResult\<close>, defined
  outside propagate\_filter.cpp, "installs a terminal zero-row plan node into the given
  slot, discarding whatever subtree was previously there": it leaves \<open>LogicalEmptyResult\<close>
  in the slot.
\<close>

datatype LogicalOperator =
    LogicalFilter "Expression list" LogicalOperator
  | LogicalEmptyResult
  | OtherOperator nat

text \<open>
  What a call of \<^verbatim>\<open>PropagateStatistics(LogicalFilter &, unique_ptr<LogicalOperator> *)\<close>
  leaves behind: the operator in the slot \<^verbatim>\<open>*node_ptr\<close>, the statistics it returns (a
  \<^verbatim>\<open>unique_ptr\<close>, which may be null) and the store.
\<close>

record propagate_result =
  node_ptr :: LogicalOperator
  return_value :: "NodeStatistics option"
  statistics_after :: statistics_map

text \<open>
  Modelled from the spec: the two collaborators, \<^verbatim>\<open>PropagateExpression\<close> and
  \<^verbatim>\<open>PropagateStatistics\<close> on the child, defined outside propagate\_filter.cpp, are
  parameters. Expression propagation "may mutate the Statistics Store and/or fold
  sub-expressions", so it returns the expression it leaves in the predicate's place and
  the store; child propagation returns the child's statistics, the child it leaves in
  \<^verbatim>\<open>children[0]\<close> and the store. A failure inside a collaborator aborts the whole pass
  and never comes back to this file.
\<close>

type_synonym expression_propagator = "Expression \<Rightarrow> statistics_map \<Rightarrow> Expression \<times> statistics_map"

type_synonym child_propagator =
  "LogicalOperator \<Rightarrow> statistics_map \<Rightarrow> NodeStatistics option \<times> LogicalOperator \<times> statistics_map"

text \<open>
  The loop of lines 219-242 from index \<open>i\<close> on. After an erase the source decrements \<open>i\<close>
  and the loop header increments it again (for \<open>i = 0\<close> the unsigned index wraps to the
  largest value and back to 0), so the next iteration runs at the same \<open>i\<close>.
\<close>

function filter_loop ::
  "expression_propagator \<Rightarrow> NodeStatistics option \<Rightarrow> LogicalOperator \<Rightarrow> nat \<Rightarrow>
   Expression list \<Rightarrow> statistics_map \<Rightarrow> error + propagate_result" where
  "filter_loop PropagateExpression node_stats child i expressions statistics_map =
     (if i < length expressions then
        (let (condition, m1) = PropagateExpression (expressions ! i) statistics_map;
             expressions1 = expressions[i := condition]
         in case ExpressionIsConstant condition (Value_BOOLEAN True) of
              Inl e \<Rightarrow> Inl e
            | Inr True \<Rightarrow>
                (let expressions2 = take i expressions1 @ drop (Suc i) expressions1
                 in if expressions2 = []
                    then Inr \<lparr>node_ptr = child, return_value = node_stats, statistics_after = m1\<rparr>
                    else filter_loop PropagateExpression node_stats child i expressions2 m1)
            | Inr False \<Rightarrow>
                (case ExpressionIsConstant condition (Value_BOOLEAN False) of
                   Inl e \<Rightarrow> Inl e
                 | Inr is_false \<Rightarrow>
                     if is_false \<or> ExpressionIsConstantOrNull condition (Value_BOOLEAN False)
                     then Inr \<lparr>node_ptr = LogicalEmptyResult,
                               return_value = Some NodeStatistics_0_0, statistics_after = m1\<rparr>
                     else (case UpdateFilterStatistics_condition condition m1 of
                             Inl e \<Rightarrow> Inl e
                           | Inr m2 \<Rightarrow>
                               filter_loop PropagateExpression node_stats child (Suc i) expressions1 m2)))
      else Inr \<lparr>node_ptr = LogicalFilter expressions child, return_value = node_stats,
                statistics_after = statistics_map\<rparr>)"
  by pat_completeness auto
termination
  by (relation "measure (\<lambda>(pe, ns, c, i, es, m). length es - i)") auto

declare filter_loop.simps [simp del]

text \<open>
  \<^verbatim>\<open>PropagateStatistics(LogicalFilter &filter, unique_ptr<LogicalOperator> *node_ptr)\<close> on
  the filter with predicate list \<open>expressions\<close> and child \<open>child0\<close>.
\<close>

definition PropagateStatistics_filter ::
  "child_propagator \<Rightarrow> expression_propagator \<Rightarrow> Expression list \<Rightarrow> LogicalOperator \<Rightarrow>
   statistics_map \<Rightarrow> error + propagate_result" where
  "PropagateStatistics_filter PropagateStatistics_child PropagateExpression expressions child0 statistics_map =
     (let (node_stats, child, m0) = PropagateStatistics_child child0 statistics_map
      in if child = LogicalEmptyResult
         then Inr \<lparr>node_ptr = LogicalEmptyResult, return_value = Some NodeStatistics_0_0,
                   statistics_after = m0\<rparr>
         else filter_loop PropagateExpression node_stats child 0 expressions m0)"

text \<open>
  Two devices for the proofs. \<open>filter_step\<close> is the verdict of one iteration (lines
  220-241) on the predicate \<open>e\<close>: the pass aborts, the predicate is erased, the filter is
  replaced by the empty result, or the predicate is kept and its statistics are applied.
  \<open>filter_scan\<close> is the loop by recursion on the predicates still to be examined: \<open>kept\<close> are
  the predicates before the index, as the loop left them, \<open>e # rest\<close> the predicate at the
  index and those behind it. \<open>filter_loop_scan\<close> below shows that \<open>filter_loop\<close> at index \<open>i\<close>
  computes exactly \<open>filter_scan\<close>.
\<close>

datatype verdict =
    Abort error
  | Erase statistics_map
  | Empty statistics_map
  | Keep Expression statistics_map

definition filter_step :: "expression_propagator \<Rightarrow> Expression \<Rightarrow> statistics_map \<Rightarrow> verdict" where
  "filter_step PropagateExpression e m =
     (let (condition, m1) = PropagateExpression e m
      in case ExpressionIsConstant condition (Value_BOOLEAN True) of
           Inl err \<Rightarrow> Abort err
         | Inr True \<Rightarrow> Erase m1
         | Inr False \<Rightarrow>
             (case ExpressionIsConstant condition (Value_BOOLEAN False) of
                Inl err \<Rightarrow> Abort err
              | Inr is_false \<Rightarrow>
                  if is_false \<or> ExpressionIsConstantOrNull condition (Value_BOOLEAN False)
                  then Empty m1
                  else (case UpdateFilterStatistics_condition condition m1 of
                          Inl err \<Rightarrow> Abort err
                        | Inr m2 \<Rightarrow> Keep condition m2)))"

fun filter_scan ::
  "expression_propagator \<Rightarrow> NodeStatistics option \<Rightarrow> LogicalOperator \<Rightarrow> Expression list \<Rightarrow>
   Expression list \<Rightarrow> statistics_map \<Rightarrow> error + propagate_result" where
  "filter_scan PropagateExpression node_stats child kept [] m =
     Inr \<lparr>node_ptr = LogicalFilter kept child, return_value = node_stats, statistics_after = m\<rparr>"
| "filter_scan PropagateExpression node_stats child kept (e # rest) m =
     (case filter_step PropagateExpression e m of
        Abort err \<Rightarrow> Inl err
      | Erase m1 \<Rightarrow>
          if kept @ rest = []
          then Inr \<lparr>node_ptr = child, return_value = node_stats, statistics_after = m1\<rparr>
          else filter_scan PropagateExpression node_stats child kept rest m1
      | Empty m1 \<Rightarrow>
          Inr \<lparr>node_ptr = LogicalEmptyResult, return_value = Some NodeStatistics_0_0,
               statistics_after = m1\<rparr>
      | Keep condition m2 \<Rightarrow>
          filter_scan PropagateExpression node_stats child (kept @ [condition]) rest m2)"

text \<open>
  The invariant of the specification's data model, \<open>min <= max\<close>, for the range recorded
  in numeric statistics.
\<close>

definition min_le_max :: "BaseStatistics \<Rightarrow> bool" where
  "min_le_max stats = (\<not> Value_gt (min_value stats) (max_value stats))"

section \<open>Properties\<close>

subsection \<open>The loop examines the predicates one by one\<close>

lemma filter_loop_scan:
  "i \<le> length es \<Longrightarrow>
   filter_loop pe ns child i es m = filter_scan pe ns child (take i es) (drop i es) m"
proof (induction pe ns child i es m rule: filter_loop.induct)
  case (1 pe ns child i es m)
  show ?case
  proof (cases "i < length es")
    case False
    with "1.prems" have "i = length es" by (simp add: Let_def filter_step_def)
    then show ?thesis by (subst filter_loop.simps) simp
  next
    case True
    obtain c m1 where pe: "pe (es ! i) m = (c, m1)" by (cases "pe (es ! i) m")
    have d: "drop i es = es ! i # drop (Suc i) es"
      using True by (simp add: Cons_nth_drop_Suc)
    let ?es1 = "es[i := c]"
    let ?es2 = "take i ?es1 @ drop (Suc i) ?es1"
    have es2: "?es2 = take i es @ drop (Suc i) es" by (simp add: Let_def filter_step_def)
    have t2: "take i ?es2 = take i es" using True by (simp add: Let_def filter_step_def)
    have d2: "drop i ?es2 = drop (Suc i) es" using True by (simp add: Let_def filter_step_def)
    have t1: "take (Suc i) ?es1 = take i es @ [c]"
      using True by (simp add: take_Suc_conv_app_nth)
    have d1: "drop (Suc i) ?es1 = drop (Suc i) es" by (simp add: Let_def filter_step_def)
    show ?thesis
    proof (cases "ExpressionIsConstant c (Value_BOOLEAN True)")
      case (Inl e)
      show ?thesis apply (subst filter_loop.simps) using Inl True pe d by (simp add: Let_def filter_step_def)
    next
      case (Inr b)
      show ?thesis
      proof (cases b)
        case T: True
        have bT: "b = True" using T by (simp add: Let_def filter_step_def)
        show ?thesis
        proof (cases "?es2 = []")
          case e: True
          show ?thesis apply (subst filter_loop.simps) using e True pe d Inr T es2 by (simp add: Let_def filter_step_def)
        next
          case ne: False
          have le: "i \<le> length ?es2" using True by (simp add: Let_def filter_step_def)
          have IH: "filter_loop pe ns child i ?es2 m1 = filter_scan pe ns child (take i ?es2) (drop i ?es2) m1"
            by (rule "1.IH"(1)[OF True refl pe[symmetric] refl Inr bT refl ne le])
          show ?thesis apply (subst filter_loop.simps) using True pe d Inr T ne IH t2 d2 es2 by (simp add: Let_def filter_step_def)
        qed
      next
        case F: False
        have bF: "b = False" using F by (simp add: Let_def filter_step_def)
        show ?thesis
        proof (cases "ExpressionIsConstant c (Value_BOOLEAN False)")
          case Inl2: (Inl e)
          show ?thesis apply (subst filter_loop.simps) using Inl2 True pe d Inr F by (simp add: Let_def filter_step_def)
        next
          case Inr2: (Inr is_false)
          show ?thesis
          proof (cases "is_false \<or> ExpressionIsConstantOrNull c (Value_BOOLEAN False)")
            case s: True
            show ?thesis apply (subst filter_loop.simps) using s True pe d Inr F Inr2 by (auto simp: Let_def filter_step_def)
          next
            case ns: False
            show ?thesis
            proof (cases "UpdateFilterStatistics_condition c m1")
              case Inl3: (Inl e)
              show ?thesis apply (subst filter_loop.simps) using Inl3 True pe d Inr F Inr2 ns by (simp add: Let_def filter_step_def)
            next
              case Inr3: (Inr m2)
              have le: "Suc i \<le> length ?es1" using True by (simp add: Let_def filter_step_def)
              have IH: "filter_loop pe ns child (Suc i) ?es1 m2 =
                        filter_scan pe ns child (take (Suc i) ?es1) (drop (Suc i) ?es1) m2"
                by (rule "1.IH"(2)[OF True refl pe[symmetric] refl Inr bF Inr2 ns Inr3 le])
              show ?thesis apply (subst filter_loop.simps) using True pe d Inr F Inr2 ns Inr3 IH t1 d1 by (simp add: Let_def filter_step_def)
            qed
          qed
        qed
      qed
    qed
  qed
qed


lemma proven_false_not_true:
  "ExpressionIsConstant c (Value_BOOLEAN False) = Inr True \<or>
   ExpressionIsConstantOrNull c (Value_BOOLEAN False) \<Longrightarrow>
   ExpressionIsConstant c (Value_BOOLEAN True) = Inr False"
  by (cases c) (auto simp: Value_BOOLEAN_def split: if_splits)

lemma filter_step_false:
  assumes "ExpressionIsConstant (fst (pe f m)) (Value_BOOLEAN False) = Inr True \<or>
           ExpressionIsConstantOrNull (fst (pe f m)) (Value_BOOLEAN False)"
  shows "filter_step pe f m = Empty (snd (pe f m))"
proof -
  obtain c m1 where pe: "pe f m = (c, m1)" by (cases "pe f m")
  have nt: "ExpressionIsConstant c (Value_BOOLEAN True) = Inr False"
    using assms pe proven_false_not_true by simp
  have "ExpressionIsConstant c (Value_BOOLEAN False) = Inr True \<or>
        (ExpressionIsConstant c (Value_BOOLEAN False) = Inr False \<and>
         ExpressionIsConstantOrNull c (Value_BOOLEAN False))"
    using assms pe by (cases c) (auto simp: Value_BOOLEAN_def)
  then show ?thesis using pe nt by (auto simp: filter_step_def)
qed

lemma filter_step_true:
  assumes "ExpressionIsConstant (fst (pe e m)) (Value_BOOLEAN True) = Inr True"
  shows "filter_step pe e m = Erase (snd (pe e m))"
  using assms by (cases "pe e m") (simp add: filter_step_def)

lemma filter_scan_suffix:
  assumes "\<forall>m. ExpressionIsConstant (fst (pe f m)) (Value_BOOLEAN False) = Inr True \<or>
           ExpressionIsConstantOrNull (fst (pe f m)) (Value_BOOLEAN False)"
  shows "filter_scan pe ns child kept (xs @ f # ys) m = filter_scan pe ns child kept (xs @ [f]) m"
proof (induction xs arbitrary: kept m)
  case Nil
  show ?case using assms by (simp add: filter_step_false)
next
  case (Cons x xs)
  show ?case
    by (simp add: Cons.IH split: verdict.splits)
qed

lemma filter_scan_sentinel:
  assumes "\<forall>m. ExpressionIsConstant (fst (pe f m)) (Value_BOOLEAN False) = Inr True \<or>
           ExpressionIsConstantOrNull (fst (pe f m)) (Value_BOOLEAN False)"
  shows "filter_scan pe ns child kept (xs @ f # ys) m = Inr r \<Longrightarrow>
         node_ptr r = LogicalEmptyResult \<and> return_value r = Some NodeStatistics_0_0"
proof (induction xs arbitrary: kept m)
  case Nil
  then show ?case using assms by (auto simp: filter_step_false)
next
  case (Cons x xs)
  then show ?case
    by (auto split: verdict.splits)
qed

lemma filter_scan_no_abort:
  assumes "\<forall>m. ExpressionIsConstant (fst (pe f m)) (Value_BOOLEAN False) = Inr True \<or>
           ExpressionIsConstantOrNull (fst (pe f m)) (Value_BOOLEAN False)"
  shows "filter_scan pe ns child kept xs m = Inr r0 \<Longrightarrow>
         \<exists>r. filter_scan pe ns child kept (xs @ f # ys) m = Inr r"
proof (induction xs arbitrary: kept m)
  case Nil
  show ?case using assms by (simp add: filter_step_false)
next
  case (Cons x xs)
  have hd: "\<And>k m1. \<exists>r. filter_scan pe ns child k (f # ys) m1 = Inr r"
    using assms by (simp add: filter_step_false)
  show ?case
  proof (cases "filter_step pe x m")
    case (Abort e)
    then show ?thesis using Cons.prems by simp
  next
    case (Erase m1)
    show ?thesis
    proof (cases "kept @ xs = []")
      case True
      then show ?thesis using Erase hd[of "[]" m1] by simp
    next
      case False
      then show ?thesis using Erase Cons.prems Cons.IH[of kept m1] by auto
    qed
  next
    case (Empty m1)
    then show ?thesis by simp
  next
    case (Keep c m2)
    then show ?thesis using Cons.prems Cons.IH[of "kept @ [c]" m2] by simp
  qed
qed

lemma filter_scan_returns_node_stats:
  "filter_scan pe ns child kept todo m = Inr r \<Longrightarrow> node_ptr r \<noteq> LogicalEmptyResult \<Longrightarrow>
   return_value r = ns"
proof (induction todo arbitrary: kept m)
  case Nil
  then show ?case by auto
next
  case (Cons x xs)
  then show ?case
    by (auto split: verdict.splits if_splits)
qed

lemma filter_scan_all_true:
  assumes "\<forall>e\<in>set todo. \<forall>m. ExpressionIsConstant (fst (pe e m)) (Value_BOOLEAN True) = Inr True"
      and "todo \<noteq> []"
  shows "filter_scan pe ns child [] todo m =
         Inr \<lparr>node_ptr = child, return_value = ns,
              statistics_after = foldl (\<lambda>m e. snd (pe e m)) m todo\<rparr>"
  using assms
proof (induction todo arbitrary: m)
  case Nil
  then show ?case by simp
next
  case (Cons x xs)
  have t: "filter_step pe x m = Erase (snd (pe x m))"
    using Cons.prems(1) by (simp add: filter_step_true)
  show ?case
  proof (cases "xs = []")
    case True
    then show ?thesis using t by simp
  next
    case False
    have "filter_scan pe ns child [] xs (snd (pe x m)) =
          Inr \<lparr>node_ptr = child, return_value = ns,
               statistics_after = foldl (\<lambda>m e. snd (pe e m)) (snd (pe x m)) xs\<rparr>"
      using Cons.IH[of "snd (pe x m)"] Cons.prems(1) False by simp
    then show ?thesis using t False by simp
  qed
qed

subsection \<open>Narrowing against a constant\<close>

text \<open>
  C6. For numeric statistics with both bounds present, narrowing against a constant with
  \<open><\<close> or \<open><=\<close> sets max to exactly the constant and leaves min as it was, with \<open>>\<close> or
  \<open>>=\<close> sets min to exactly the constant and leaves max as it was, with \<open>=\<close> sets both
  bounds to the constant, and with any other comparator changes neither bound. The strict
  comparators give the same statistics as the non-strict ones: there is no off-by-one
  adjustment.
\<close>

theorem UpdateFilterStatistics_constant_bounds:
  assumes "IsNumeric (stats_type stats)"
      and "\<not> IsNull (min_value stats)"
      and "\<not> IsNull (max_value stats)"
  shows "(cmp = COMPARE_LESSTHAN \<or> cmp = COMPARE_LESSTHANOREQUALTO \<longrightarrow>
            max_value (UpdateFilterStatistics_constant stats cmp c) = c \<and>
            min_value (UpdateFilterStatistics_constant stats cmp c) = min_value stats) \<and>
         (cmp = COMPARE_GREATERTHAN \<or> cmp = COMPARE_GREATERTHANOREQUALTO \<longrightarrow>
            min_value (UpdateFilterStatistics_constant stats cmp c) = c \<and>
            max_value (UpdateFilterStatistics_constant stats cmp c) = max_value stats) \<and>
         (cmp = COMPARE_EQUAL \<longrightarrow>
            min_value (UpdateFilterStatistics_constant stats cmp c) = c \<and>
            max_value (UpdateFilterStatistics_constant stats cmp c) = c) \<and>
         (cmp \<notin> {COMPARE_LESSTHAN, COMPARE_LESSTHANOREQUALTO, COMPARE_GREATERTHAN,
                  COMPARE_GREATERTHANOREQUALTO, COMPARE_EQUAL} \<longrightarrow>
            min_value (UpdateFilterStatistics_constant stats cmp c) = min_value stats \<and>
            max_value (UpdateFilterStatistics_constant stats cmp c) = max_value stats) \<and>
         UpdateFilterStatistics_constant stats COMPARE_LESSTHAN c =
           UpdateFilterStatistics_constant stats COMPARE_LESSTHANOREQUALTO c \<and>
         UpdateFilterStatistics_constant stats COMPARE_GREATERTHAN c =
           UpdateFilterStatistics_constant stats COMPARE_GREATERTHANOREQUALTO c"
  using assms by (cases cmp) (simp_all add: UpdateFilterStatistics_constant_def)

theorem UpdateFilterStatistics_constant_bounds_witness:
  "IsNumeric (stats_type \<lparr>stats_type = INTEGER, validity_stats = Some (ValidityStatistics True),
       min_value = Value INTEGER (Some 0), max_value = Value INTEGER (Some 100)\<rparr>) \<and>
   \<not> IsNull (Value INTEGER (Some 0)) \<and> \<not> IsNull (Value INTEGER (Some 100)) \<and>
   UpdateFilterStatistics_constant
     \<lparr>stats_type = INTEGER, validity_stats = Some (ValidityStatistics True),
      min_value = Value INTEGER (Some 0), max_value = Value INTEGER (Some 100)\<rparr>
     COMPARE_LESSTHAN (Value INTEGER (Some 50)) =
     \<lparr>stats_type = INTEGER, validity_stats = Some (ValidityStatistics False),
      min_value = Value INTEGER (Some 0), max_value = Value INTEGER (Some 50)\<rparr> \<and>
   min_value (UpdateFilterStatistics_constant
     \<lparr>stats_type = INTEGER, validity_stats = Some (ValidityStatistics True),
      min_value = Value INTEGER (Some 0), max_value = Value INTEGER (Some 100)\<rparr>
     COMPARE_GREATERTHANOREQUALTO (Value INTEGER (Some 50))) = Value INTEGER (Some 50) \<and>
   max_value (UpdateFilterStatistics_constant
     \<lparr>stats_type = INTEGER, validity_stats = Some (ValidityStatistics True),
      min_value = Value INTEGER (Some 0), max_value = Value INTEGER (Some 100)\<rparr>
     COMPARE_EQUAL (Value INTEGER (Some 7))) = Value INTEGER (Some 7) \<and>
   max_value (UpdateFilterStatistics_constant
     \<lparr>stats_type = INTEGER, validity_stats = Some (ValidityStatistics True),
      min_value = Value INTEGER (Some 0), max_value = Value INTEGER (Some 100)\<rparr>
     COMPARE_NOTEQUAL (Value INTEGER (Some 7))) = Value INTEGER (Some 100)"
  using UpdateFilterStatistics_constant_bounds
    [of "\<lparr>stats_type = INTEGER, validity_stats = Some (ValidityStatistics True),
          min_value = Value INTEGER (Some 0), max_value = Value INTEGER (Some 100)\<rparr>"
        COMPARE_LESSTHAN "Value INTEGER (Some 50)"]
    UpdateFilterStatistics_constant_bounds
    [of "\<lparr>stats_type = INTEGER, validity_stats = Some (ValidityStatistics True),
          min_value = Value INTEGER (Some 0), max_value = Value INTEGER (Some 100)\<rparr>"
        COMPARE_GREATERTHANOREQUALTO "Value INTEGER (Some 50)"]
    UpdateFilterStatistics_constant_bounds
    [of "\<lparr>stats_type = INTEGER, validity_stats = Some (ValidityStatistics True),
          min_value = Value INTEGER (Some 0), max_value = Value INTEGER (Some 100)\<rparr>"
        COMPARE_EQUAL "Value INTEGER (Some 7)"]
    UpdateFilterStatistics_constant_bounds
    [of "\<lparr>stats_type = INTEGER, validity_stats = Some (ValidityStatistics True),
          min_value = Value INTEGER (Some 0), max_value = Value INTEGER (Some 100)\<rparr>"
        COMPARE_NOTEQUAL "Value INTEGER (Some 7)"]
  by (simp add: IsNull_def UpdateFilterStatistics_constant_def)

subsection \<open>Narrowing two columns\<close>

text \<open>
  C1, as stated, fails. The claim is about every pair of numeric statistics with all four
  bounds present. The function asserts that both statistics have the same logical type
  (line 79) before it looks at the bounds: for INTEGER statistics on the left and BIGINT
  statistics on the right, both numeric with all bounds present, the assertion fails and
  nothing is narrowed.
\<close>

theorem UpdateFilterStatistics_columns_equal_counterexample:
  "IsNumeric INTEGER \<and> IsNumeric BIGINT \<and>
   UpdateFilterStatistics_columns
     \<lparr>stats_type = INTEGER, validity_stats = None,
      min_value = Value INTEGER (Some (-50)), max_value = Value INTEGER (Some 250)\<rparr>
     \<lparr>stats_type = BIGINT, validity_stats = None,
      min_value = Value BIGINT (Some (-100)), max_value = Value BIGINT (Some 100)\<rparr>
     COMPARE_EQUAL =
   Inl AssertionFailed"
  by (simp add: UpdateFilterStatistics_columns_def)

text \<open>
  C1, amended. For two numeric statistics of the same logical type with all four bounds
  present, narrowing under \<open>=\<close> leaves on both sides the larger of the two mins as min and
  the smaller of the two maxes as max. The value comes from the left statistics exactly
  when left.min > right.min (then right.min is the field assigned), otherwise from the
  right statistics (then left.min is assigned); for the max, from the left exactly when
  left.max < right.max (right.max is assigned), otherwise from the right (left.max is
  assigned).
\<close>

theorem UpdateFilterStatistics_columns_equal:
  assumes "IsNumeric (stats_type l)" and "IsNumeric (stats_type r)"
      and "stats_type l = stats_type r"
      and "payload (min_value l) = Some lmin" and "payload (max_value l) = Some lmax"
      and "payload (min_value r) = Some rmin" and "payload (max_value r) = Some rmax"
  shows "\<exists>l' r'. UpdateFilterStatistics_columns l r COMPARE_EQUAL = Inr (l', r') \<and>
           l' = l\<lparr>validity_stats := Some (ValidityStatistics False),
                   min_value := (if lmin > rmin then min_value l else min_value r),
                   max_value := (if lmax < rmax then max_value l else max_value r)\<rparr> \<and>
           r' = r\<lparr>validity_stats := Some (ValidityStatistics False),
                   min_value := (if lmin > rmin then min_value l else min_value r),
                   max_value := (if lmax < rmax then max_value l else max_value r)\<rparr> \<and>
           payload (min_value l') = Some (max lmin rmin) \<and>
           payload (min_value r') = Some (max lmin rmin) \<and>
           payload (max_value l') = Some (min lmax rmax) \<and>
           payload (max_value r') = Some (min lmax rmax)"
  using assms
  by (auto simp: UpdateFilterStatistics_columns_def IsNull_def Value_gt_def Value_lt_def Let_def)

theorem UpdateFilterStatistics_columns_equal_witness:
  "IsNumeric INTEGER \<and>
   UpdateFilterStatistics_columns
     \<lparr>stats_type = INTEGER, validity_stats = None,
      min_value = Value INTEGER (Some (-50)), max_value = Value INTEGER (Some 250)\<rparr>
     \<lparr>stats_type = INTEGER, validity_stats = None,
      min_value = Value INTEGER (Some (-100)), max_value = Value INTEGER (Some 100)\<rparr>
     COMPARE_EQUAL =
   Inr (\<lparr>stats_type = INTEGER, validity_stats = Some (ValidityStatistics False),
         min_value = Value INTEGER (Some (-50)), max_value = Value INTEGER (Some 100)\<rparr>,
        \<lparr>stats_type = INTEGER, validity_stats = Some (ValidityStatistics False),
         min_value = Value INTEGER (Some (-50)), max_value = Value INTEGER (Some 100)\<rparr>)"
  using UpdateFilterStatistics_columns_equal
    [of "\<lparr>stats_type = INTEGER, validity_stats = None,
          min_value = Value INTEGER (Some (-50)), max_value = Value INTEGER (Some 250)\<rparr>"
        "\<lparr>stats_type = INTEGER, validity_stats = None,
          min_value = Value INTEGER (Some (-100)), max_value = Value INTEGER (Some 100)\<rparr>"
        "-50" 250 "-100" 100]
  by auto

text \<open>
  C2, as stated, fails. The claim is that both narrowing operations produce ranges with
  min <= max whenever their input ranges have min <= max, also for equality narrowing of
  two columns with disjoint ranges. For the ranges [0, 10] and [20, 30] both inputs
  satisfy min <= max, while narrowing under \<open>=\<close> leaves min = 20 and max = 10 on both
  sides. Likewise the range [0, 10] narrowed against the constant 15 under \<open>>\<close> becomes
  min = 15, max = 10.
\<close>

theorem narrowing_min_le_max_counterexample:
  "min_le_max \<lparr>stats_type = INTEGER, validity_stats = None,
      min_value = Value INTEGER (Some 0), max_value = Value INTEGER (Some 10)\<rparr> \<and>
   min_le_max \<lparr>stats_type = INTEGER, validity_stats = None,
      min_value = Value INTEGER (Some 20), max_value = Value INTEGER (Some 30)\<rparr> \<and>
   UpdateFilterStatistics_columns
     \<lparr>stats_type = INTEGER, validity_stats = None,
      min_value = Value INTEGER (Some 0), max_value = Value INTEGER (Some 10)\<rparr>
     \<lparr>stats_type = INTEGER, validity_stats = None,
      min_value = Value INTEGER (Some 20), max_value = Value INTEGER (Some 30)\<rparr>
     COMPARE_EQUAL =
   Inr (\<lparr>stats_type = INTEGER, validity_stats = Some (ValidityStatistics False),
         min_value = Value INTEGER (Some 20), max_value = Value INTEGER (Some 10)\<rparr>,
        \<lparr>stats_type = INTEGER, validity_stats = Some (ValidityStatistics False),
         min_value = Value INTEGER (Some 20), max_value = Value INTEGER (Some 10)\<rparr>) \<and>
   \<not> min_le_max \<lparr>stats_type = INTEGER, validity_stats = Some (ValidityStatistics False),
         min_value = Value INTEGER (Some 20), max_value = Value INTEGER (Some 10)\<rparr> \<and>
   UpdateFilterStatistics_constant
     \<lparr>stats_type = INTEGER, validity_stats = None,
      min_value = Value INTEGER (Some 0), max_value = Value INTEGER (Some 10)\<rparr>
     COMPARE_GREATERTHAN (Value INTEGER (Some 15)) =
   \<lparr>stats_type = INTEGER, validity_stats = Some (ValidityStatistics False),
    min_value = Value INTEGER (Some 15), max_value = Value INTEGER (Some 10)\<rparr> \<and>
   \<not> min_le_max \<lparr>stats_type = INTEGER, validity_stats = Some (ValidityStatistics False),
         min_value = Value INTEGER (Some 15), max_value = Value INTEGER (Some 10)\<rparr>"
  by (simp add: min_le_max_def Value_gt_def Value_lt_def UpdateFilterStatistics_columns_def
        UpdateFilterStatistics_constant_def IsNull_def)

text \<open>
  C2, amended. If every input range satisfies min <= max and the bound that the
  comparison overwrites does not cross the opposite bound, then every range produced
  satisfies min <= max. Against a constant \<open>c\<close> the condition is min <= c for \<open><\<close> and
  \<open><=\<close>, c <= max for \<open>>\<close> and \<open>>=\<close>, and nothing for the other comparators. For two
  columns it is left.min <= right.max for \<open><\<close> and \<open><=\<close>, right.min <= left.max for \<open>>\<close>
  and \<open>>=\<close>, and both (the ranges overlap) for \<open>=\<close>. Equality narrowing of two numeric
  columns of the same logical type, with all four bounds present and disjoint ranges
  (left.max < right.min or right.max < left.min), produces min > max on both sides.
\<close>

theorem narrowing_min_le_max:
  "(min_le_max stats \<and>
    (cmp = COMPARE_LESSTHAN \<or> cmp = COMPARE_LESSTHANOREQUALTO \<longrightarrow>
       \<not> Value_gt (min_value stats) c) \<and>
    (cmp = COMPARE_GREATERTHAN \<or> cmp = COMPARE_GREATERTHANOREQUALTO \<longrightarrow>
       \<not> Value_gt c (max_value stats))
    \<longrightarrow> min_le_max (UpdateFilterStatistics_constant stats cmp c)) \<and>
   (min_le_max l \<and> min_le_max r \<and>
    (cmp = COMPARE_LESSTHAN \<or> cmp = COMPARE_LESSTHANOREQUALTO \<or> cmp = COMPARE_EQUAL \<longrightarrow>
       \<not> Value_gt (min_value l) (max_value r)) \<and>
    (cmp = COMPARE_GREATERTHAN \<or> cmp = COMPARE_GREATERTHANOREQUALTO \<or> cmp = COMPARE_EQUAL \<longrightarrow>
       \<not> Value_gt (min_value r) (max_value l)) \<and>
    UpdateFilterStatistics_columns l r cmp = Inr (l', r')
    \<longrightarrow> min_le_max l' \<and> min_le_max r') \<and>
   (IsNumeric (stats_type a) \<and> stats_type a = stats_type b \<and>
    \<not> IsNull (min_value a) \<and> \<not> IsNull (max_value a) \<and>
    \<not> IsNull (min_value b) \<and> \<not> IsNull (max_value b) \<and>
    (Value_lt (max_value a) (min_value b) \<or> Value_lt (max_value b) (min_value a))
    \<longrightarrow> (\<exists>a' b'. UpdateFilterStatistics_columns a b COMPARE_EQUAL = Inr (a', b') \<and>
           Value_gt (min_value a') (max_value a') \<and> Value_gt (min_value b') (max_value b') \<and>
           \<not> min_le_max a' \<and> \<not> min_le_max b'))"
proof (intro conjI impI)
  assume a: "min_le_max stats \<and>
    (cmp = COMPARE_LESSTHAN \<or> cmp = COMPARE_LESSTHANOREQUALTO \<longrightarrow>
       \<not> Value_gt (min_value stats) c) \<and>
    (cmp = COMPARE_GREATERTHAN \<or> cmp = COMPARE_GREATERTHANOREQUALTO \<longrightarrow>
       \<not> Value_gt c (max_value stats))"
  then show "min_le_max (UpdateFilterStatistics_constant stats cmp c)"
    by (cases cmp)
       (auto simp: min_le_max_def UpdateFilterStatistics_constant_def Value_gt_def IsNull_def
             Let_def split: option.splits)
next
  assume a: "min_le_max l \<and> min_le_max r \<and>
    (cmp = COMPARE_LESSTHAN \<or> cmp = COMPARE_LESSTHANOREQUALTO \<or> cmp = COMPARE_EQUAL \<longrightarrow>
       \<not> Value_gt (min_value l) (max_value r)) \<and>
    (cmp = COMPARE_GREATERTHAN \<or> cmp = COMPARE_GREATERTHANOREQUALTO \<or> cmp = COMPARE_EQUAL \<longrightarrow>
       \<not> Value_gt (min_value r) (max_value l)) \<and>
    UpdateFilterStatistics_columns l r cmp = Inr (l', r')"
  then show "min_le_max l'"
    by (cases cmp)
       (auto simp: min_le_max_def UpdateFilterStatistics_columns_def Value_gt_def Value_lt_def
             IsNull_def Let_def split: option.splits if_splits)
  from a show "min_le_max r'"
    by (cases cmp)
       (auto simp: min_le_max_def UpdateFilterStatistics_columns_def Value_gt_def Value_lt_def
             IsNull_def Let_def split: option.splits if_splits)
next
  assume d: "IsNumeric (stats_type a) \<and> stats_type a = stats_type b \<and>
    \<not> IsNull (min_value a) \<and> \<not> IsNull (max_value a) \<and>
    \<not> IsNull (min_value b) \<and> \<not> IsNull (max_value b) \<and>
    (Value_lt (max_value a) (min_value b) \<or> Value_lt (max_value b) (min_value a))"
  then obtain amin amax bmin bmax where
    p: "payload (min_value a) = Some amin" "payload (max_value a) = Some amax"
       "payload (min_value b) = Some bmin" "payload (max_value b) = Some bmax"
    by (auto simp: IsNull_def)
  from d p have lt: "amax < bmin \<or> bmax < amin"
    by (simp add: Value_lt_def)
  from d have ty: "IsNumeric (stats_type a)" "IsNumeric (stats_type b)"
    "stats_type a = stats_type b"
    by auto
  show "\<exists>a' b'. UpdateFilterStatistics_columns a b COMPARE_EQUAL = Inr (a', b') \<and>
           Value_gt (min_value a') (max_value a') \<and> Value_gt (min_value b') (max_value b') \<and>
           \<not> min_le_max a' \<and> \<not> min_le_max b'"
    using ty p lt
    by (auto simp: UpdateFilterStatistics_columns_def IsNull_def Value_gt_def Value_lt_def
          Let_def min_le_max_def)
qed

theorem narrowing_min_le_max_witness:
  "min_le_max
     \<lparr>stats_type = INTEGER, validity_stats = None,
        min_value = Value INTEGER (Some (-50)), max_value = Value INTEGER (Some 250)\<rparr> \<and>
   min_le_max
     \<lparr>stats_type = INTEGER, validity_stats = None,
        min_value = Value INTEGER (Some (-100)), max_value = Value INTEGER (Some 100)\<rparr> \<and>
   min_le_max (UpdateFilterStatistics_constant
     \<lparr>stats_type = INTEGER, validity_stats = None,
        min_value = Value INTEGER (Some (-50)), max_value = Value INTEGER (Some 250)\<rparr>
      COMPARE_LESSTHAN (Value INTEGER (Some 50))) \<and>
   UpdateFilterStatistics_columns
     \<lparr>stats_type = INTEGER, validity_stats = None,
        min_value = Value INTEGER (Some (-50)), max_value = Value INTEGER (Some 250)\<rparr>
     \<lparr>stats_type = INTEGER, validity_stats = None,
        min_value = Value INTEGER (Some (-100)), max_value = Value INTEGER (Some 100)\<rparr>
     COMPARE_LESSTHAN = Inr (
     \<lparr>stats_type = INTEGER, validity_stats = Some (ValidityStatistics False),
        min_value = Value INTEGER (Some (-50)), max_value = Value INTEGER (Some 100)\<rparr>,
     \<lparr>stats_type = INTEGER, validity_stats = Some (ValidityStatistics False),
        min_value = Value INTEGER (Some (-50)), max_value = Value INTEGER (Some 100)\<rparr>) \<and>
   UpdateFilterStatistics_columns
     \<lparr>stats_type = INTEGER, validity_stats = None,
        min_value = Value INTEGER (Some (-50)), max_value = Value INTEGER (Some 250)\<rparr>
     \<lparr>stats_type = INTEGER, validity_stats = None,
        min_value = Value INTEGER (Some (-100)), max_value = Value INTEGER (Some 100)\<rparr>
     COMPARE_EQUAL = Inr (
     \<lparr>stats_type = INTEGER, validity_stats = Some (ValidityStatistics False),
        min_value = Value INTEGER (Some (-50)), max_value = Value INTEGER (Some 100)\<rparr>,
     \<lparr>stats_type = INTEGER, validity_stats = Some (ValidityStatistics False),
        min_value = Value INTEGER (Some (-50)), max_value = Value INTEGER (Some 100)\<rparr>) \<and>
   min_le_max
     \<lparr>stats_type = INTEGER, validity_stats = Some (ValidityStatistics False),
        min_value = Value INTEGER (Some (-50)), max_value = Value INTEGER (Some 100)\<rparr> \<and>
   Value_lt (Value INTEGER (Some 10)) (Value INTEGER (Some 20)) \<and>
   UpdateFilterStatistics_columns
     \<lparr>stats_type = INTEGER, validity_stats = None,
        min_value = Value INTEGER (Some 0), max_value = Value INTEGER (Some 10)\<rparr>
     \<lparr>stats_type = INTEGER, validity_stats = None,
        min_value = Value INTEGER (Some 20), max_value = Value INTEGER (Some 30)\<rparr>
     COMPARE_EQUAL = Inr (
     \<lparr>stats_type = INTEGER, validity_stats = Some (ValidityStatistics False),
        min_value = Value INTEGER (Some 20), max_value = Value INTEGER (Some 10)\<rparr>,
     \<lparr>stats_type = INTEGER, validity_stats = Some (ValidityStatistics False),
        min_value = Value INTEGER (Some 20), max_value = Value INTEGER (Some 10)\<rparr>) \<and>
   Value_gt (Value INTEGER (Some 20)) (Value INTEGER (Some 10))"
  using
    narrowing_min_le_max
    [where stats="
     \<lparr>stats_type = INTEGER, validity_stats = None,
        min_value = Value INTEGER (Some (-50)), max_value = Value INTEGER (Some 250)\<rparr>"
       and cmp=COMPARE_LESSTHAN and c="Value INTEGER (Some 50)"
       and l="
     \<lparr>stats_type = INTEGER, validity_stats = None,
        min_value = Value INTEGER (Some (-50)), max_value = Value INTEGER (Some 250)\<rparr>"
       and r="
     \<lparr>stats_type = INTEGER, validity_stats = None,
        min_value = Value INTEGER (Some (-100)), max_value = Value INTEGER (Some 100)\<rparr>"
       and l'="
     \<lparr>stats_type = INTEGER, validity_stats = Some (ValidityStatistics False),
        min_value = Value INTEGER (Some (-50)), max_value = Value INTEGER (Some 100)\<rparr>"
       and r'="
     \<lparr>stats_type = INTEGER, validity_stats = Some (ValidityStatistics False),
        min_value = Value INTEGER (Some (-50)), max_value = Value INTEGER (Some 100)\<rparr>"
       and a="
     \<lparr>stats_type = INTEGER, validity_stats = None,
        min_value = Value INTEGER (Some 0), max_value = Value INTEGER (Some 10)\<rparr>"
       and b="
     \<lparr>stats_type = INTEGER, validity_stats = None,
        min_value = Value INTEGER (Some 20), max_value = Value INTEGER (Some 30)\<rparr>"]
    narrowing_min_le_max
    [where stats="
     \<lparr>stats_type = INTEGER, validity_stats = None,
        min_value = Value INTEGER (Some (-50)), max_value = Value INTEGER (Some 250)\<rparr>"
       and cmp=COMPARE_EQUAL and c="Value INTEGER (Some 50)"
       and l="
     \<lparr>stats_type = INTEGER, validity_stats = None,
        min_value = Value INTEGER (Some (-50)), max_value = Value INTEGER (Some 250)\<rparr>"
       and r="
     \<lparr>stats_type = INTEGER, validity_stats = None,
        min_value = Value INTEGER (Some (-100)), max_value = Value INTEGER (Some 100)\<rparr>"
       and l'="
     \<lparr>stats_type = INTEGER, validity_stats = Some (ValidityStatistics False),
        min_value = Value INTEGER (Some (-50)), max_value = Value INTEGER (Some 100)\<rparr>"
       and r'="
     \<lparr>stats_type = INTEGER, validity_stats = Some (ValidityStatistics False),
        min_value = Value INTEGER (Some (-50)), max_value = Value INTEGER (Some 100)\<rparr>"
       and a="
     \<lparr>stats_type = INTEGER, validity_stats = None,
        min_value = Value INTEGER (Some 0), max_value = Value INTEGER (Some 10)\<rparr>"
       and b="
     \<lparr>stats_type = INTEGER, validity_stats = None,
        min_value = Value INTEGER (Some 20), max_value = Value INTEGER (Some 30)\<rparr>"]
  by (simp add: min_le_max_def Value_gt_def Value_lt_def UpdateFilterStatistics_columns_def
        UpdateFilterStatistics_constant_def IsNull_def Let_def)

subsection \<open>Dispatching a comparison\<close>

lemma SetStatisticsNotNull_Some:
  "m b = Some stats \<Longrightarrow>
   SetStatisticsNotNull b m = m(b \<mapsto> stats\<lparr>validity_stats := Some (ValidityStatistics False)\<rparr>)"
  by (simp add: SetStatisticsNotNull_def)

lemma UpdateFilterStatistics_comparison_column_constant:
  "m b = Some stats \<Longrightarrow>
   UpdateFilterStatistics_comparison (BoundColumnRefExpression b) (BoundConstantExpression c) cmp m =
   Inr (m(b \<mapsto> UpdateFilterStatistics_constant stats cmp c))"
  by (simp add: UpdateFilterStatistics_comparison_def SetStatisticsNotNull_Some
        UpdateFilterStatistics_constant_def)

text \<open>
  C3, as stated, fails. The claim is that propagating \<open>col >= constant\<close> on a numeric
  column without recorded min or max modifies no field of the stored statistics, the
  nullability flag included. For a column recorded as nullable with both bounds NULL, the
  stored statistics afterwards are recorded as non-null.
\<close>

theorem narrowing_without_bounds_counterexample:
  "UpdateFilterStatistics_condition
     (BoundComparisonExpression COMPARE_GREATERTHANOREQUALTO
        (BoundColumnRefExpression (0, 0)) (BoundConstantExpression (Value INTEGER (Some 3))))
     (map_of [((0, 0), \<lparr>stats_type = INTEGER, validity_stats = Some (ValidityStatistics True),
                         min_value = Value INTEGER None, max_value = Value INTEGER None\<rparr>)]) =
   Inr (map_of [((0, 0), \<lparr>stats_type = INTEGER, validity_stats = Some (ValidityStatistics False),
                         min_value = Value INTEGER None, max_value = Value INTEGER None\<rparr>)]) \<and>
   \<lparr>stats_type = INTEGER, validity_stats = Some (ValidityStatistics False),
    min_value = Value INTEGER None, max_value = Value INTEGER None\<rparr> \<noteq>
   \<lparr>stats_type = INTEGER, validity_stats = Some (ValidityStatistics True),
    min_value = Value INTEGER None, max_value = Value INTEGER None\<rparr>"
  by (simp add: UpdateFilterStatistics_comparison_def SetStatisticsNotNull_def
        UpdateFilterStatistics_constant_def IsNull_def)

text \<open>
  C3, amended. For every numeric column whose stored statistics have no recorded min or
  max (either bound is null), propagating the comparison \<open>col >= constant\<close> leaves the
  type, min and max of the stored statistics and every other entry of the store
  unchanged; the only field it writes is the nullability flag, which it sets to non-null.
\<close>

theorem narrowing_without_bounds:
  assumes "m b = Some stats"
      and "IsNumeric (stats_type stats)"
      and "IsNull (min_value stats) \<or> IsNull (max_value stats)"
  shows "UpdateFilterStatistics_condition
           (BoundComparisonExpression COMPARE_GREATERTHANOREQUALTO
              (BoundColumnRefExpression b) (BoundConstantExpression c)) m =
         Inr (m(b \<mapsto> stats\<lparr>validity_stats := Some (ValidityStatistics False)\<rparr>))"
  using assms
  by (auto simp: UpdateFilterStatistics_comparison_column_constant
        UpdateFilterStatistics_constant_def)

theorem narrowing_without_bounds_witness:
  "IsNumeric INTEGER \<and> IsNull (Value INTEGER None) \<and>
   UpdateFilterStatistics_condition
     (BoundComparisonExpression COMPARE_GREATERTHANOREQUALTO
        (BoundColumnRefExpression (0, 0)) (BoundConstantExpression (Value INTEGER (Some 3))))
     (map_of [((0, 0), \<lparr>stats_type = INTEGER, validity_stats = Some (ValidityStatistics True),
                         min_value = Value INTEGER None, max_value = Value INTEGER None\<rparr>)]) =
   Inr (map_of [((0, 0), \<lparr>stats_type = INTEGER, validity_stats = Some (ValidityStatistics False),
                         min_value = Value INTEGER None, max_value = Value INTEGER None\<rparr>)])"
  using narrowing_without_bounds
    [where m="map_of [((0, 0), \<lparr>stats_type = INTEGER, validity_stats = Some (ValidityStatistics True),
                         min_value = Value INTEGER None, max_value = Value INTEGER None\<rparr>)]"
       and b="(0, 0)" and c="Value INTEGER (Some 3)"
       and stats="\<lparr>stats_type = INTEGER, validity_stats = Some (ValidityStatistics True),
                         min_value = Value INTEGER None, max_value = Value INTEGER None\<rparr>"]
  by (simp add: IsNull_def)

text \<open>
  C8. Dispatching a comparison with the constant on the left and the column on the right
  updates the store exactly as dispatching it with the column on the left and the
  constant on the right under the mirrored comparator.
\<close>

theorem constant_on_the_left_is_mirrored:
  "UpdateFilterStatistics_comparison (BoundConstantExpression c) (BoundColumnRefExpression col) cmp m =
   UpdateFilterStatistics_comparison (BoundColumnRefExpression col) (BoundConstantExpression c)
     (FlipComparisionExpression cmp) m"
  by (simp add: UpdateFilterStatistics_comparison_def)

theorem constant_on_the_left_is_mirrored_witness:
  "UpdateFilterStatistics_comparison (BoundConstantExpression (Value INTEGER (Some 50)))
     (BoundColumnRefExpression (0, 0)) COMPARE_LESSTHAN
     (map_of [((0, 0), \<lparr>stats_type = INTEGER, validity_stats = Some (ValidityStatistics True),
                         min_value = Value INTEGER (Some 0), max_value = Value INTEGER (Some 100)\<rparr>)]) =
   Inr (map_of [((0, 0), \<lparr>stats_type = INTEGER, validity_stats = Some (ValidityStatistics False),
                         min_value = Value INTEGER (Some 50), max_value = Value INTEGER (Some 100)\<rparr>)])"
  using constant_on_the_left_is_mirrored
    [of "Value INTEGER (Some 50)" "(0, 0)" COMPARE_LESSTHAN
        "map_of [((0, 0), \<lparr>stats_type = INTEGER, validity_stats = Some (ValidityStatistics True),
                         min_value = Value INTEGER (Some 0), max_value = Value INTEGER (Some 100)\<rparr>)]"]
  by (simp add: UpdateFilterStatistics_comparison_column_constant
        UpdateFilterStatistics_constant_def IsNull_def)

text \<open>
  C7. For a Between expression, dispatching the condition is dispatching two comparisons
  in order: input against lower with the lower-bound comparator, then input against upper
  with the upper-bound comparator, on the store the first one left (and not at all when
  the first one aborts). So \<open>col BETWEEN lo AND hi\<close> acts like \<open>col >= lo AND col <= hi\<close>: on
  numeric statistics with both bounds present the result has min = lo, max = hi and
  nullability non-null; for lo = 10 and hi = 20 that is min = 10 >= 10 and max = 20 <= 20.
\<close>

theorem between_as_two_comparisons:
  "UpdateFilterStatistics_condition (BoundBetweenExpression input lower upper lower_cmp upper_cmp) m =
     (case UpdateFilterStatistics_condition (BoundComparisonExpression lower_cmp input lower) m of
        Inl e \<Rightarrow> Inl e
      | Inr m1 \<Rightarrow> UpdateFilterStatistics_condition (BoundComparisonExpression upper_cmp input upper) m1) \<and>
   (m b = Some stats \<and> IsNumeric (stats_type stats) \<and>
    \<not> IsNull (min_value stats) \<and> \<not> IsNull (max_value stats) \<and> \<not> IsNull lo \<longrightarrow>
    UpdateFilterStatistics_condition
      (BoundBetweenExpression (BoundColumnRefExpression b) (BoundConstantExpression lo)
         (BoundConstantExpression hi) COMPARE_GREATERTHANOREQUALTO COMPARE_LESSTHANOREQUALTO) m =
    Inr (m(b \<mapsto> stats\<lparr>validity_stats := Some (ValidityStatistics False),
                        min_value := lo, max_value := hi\<rparr>)))"
  by (auto simp: UpdateFilterStatistics_comparison_column_constant
        UpdateFilterStatistics_constant_def split: sum.splits)

theorem between_as_two_comparisons_witness:
  "IsNumeric INTEGER \<and> \<not> IsNull (Value INTEGER (Some 10)) \<and>
   UpdateFilterStatistics_condition
     (BoundBetweenExpression (BoundColumnRefExpression (0, 0))
        (BoundConstantExpression (Value INTEGER (Some 10)))
        (BoundConstantExpression (Value INTEGER (Some 20)))
        COMPARE_GREATERTHANOREQUALTO COMPARE_LESSTHANOREQUALTO)
     (map_of [((0, 0), \<lparr>stats_type = INTEGER, validity_stats = Some (ValidityStatistics True),
                         min_value = Value INTEGER (Some 0), max_value = Value INTEGER (Some 100)\<rparr>)]) =
   Inr (map_of [((0, 0), \<lparr>stats_type = INTEGER, validity_stats = Some (ValidityStatistics False),
                         min_value = Value INTEGER (Some 10), max_value = Value INTEGER (Some 20)\<rparr>)])"
  using between_as_two_comparisons
    [where m="map_of [((0, 0), \<lparr>stats_type = INTEGER, validity_stats = Some (ValidityStatistics True),
                         min_value = Value INTEGER (Some 0), max_value = Value INTEGER (Some 100)\<rparr>)]"
       and b="(0, 0)" and lo="Value INTEGER (Some 10)" and hi="Value INTEGER (Some 20)"
       and input="BoundColumnRefExpression (0, 0)"
       and lower="BoundConstantExpression (Value INTEGER (Some 10))"
       and upper="BoundConstantExpression (Value INTEGER (Some 20))"
       and lower_cmp=COMPARE_GREATERTHANOREQUALTO and upper_cmp=COMPARE_LESSTHANOREQUALTO
       and stats="\<lparr>stats_type = INTEGER, validity_stats = Some (ValidityStatistics True),
                         min_value = Value INTEGER (Some 0), max_value = Value INTEGER (Some 100)\<rparr>",
     THEN conjunct2, THEN mp]
  by (simp add: IsNull_def)

subsection \<open>Simplifying a filter node\<close>

lemma PropagateStatistics_filter_scan:
  "pc child m = (ns, child', m0) \<Longrightarrow>
   PropagateStatistics_filter pc pe es child m =
     (if child' = LogicalEmptyResult
      then Inr \<lparr>node_ptr = LogicalEmptyResult, return_value = Some NodeStatistics_0_0,
                statistics_after = m0\<rparr>
      else filter_scan pe ns child' [] es m0)"
  by (simp add: PropagateStatistics_filter_def filter_loop_scan)

text \<open>
  C4. If the predicate at position \<open>i\<close> of the filter's list is proven literal false or
  constant-or-null false (whatever the store it is examined in), then the call leaves the
  zero-row sentinel in the filter's slot and returns the statistics of an empty result,
  and no predicate after position \<open>i\<close> is examined: the whole outcome, store included, is
  the one of the filter cut off after position \<open>i\<close>. The call returns whenever the
  predicates before position \<open>i\<close> do not abort the pass on a failed assertion.
\<close>

theorem false_predicate_empties_filter:
  "(i < length es \<and>
    (ExpressionIsConstant (fst (pe (es ! i) m)) (Value_BOOLEAN False) = Inr True \<or>
     ExpressionIsConstantOrNull (fst (pe (es ! i) m)) (Value_BOOLEAN False)) \<longrightarrow>
      filter_loop pe ns child' i es m =
        Inr \<lparr>node_ptr = LogicalEmptyResult, return_value = Some NodeStatistics_0_0,
             statistics_after = snd (pe (es ! i) m)\<rparr>) \<and>
   (i < length es \<and>
    (\<forall>m. ExpressionIsConstant (fst (pe (es ! i) m)) (Value_BOOLEAN False) = Inr True \<or>
         ExpressionIsConstantOrNull (fst (pe (es ! i) m)) (Value_BOOLEAN False)) \<longrightarrow>
      PropagateStatistics_filter pc pe es child m0 =
        PropagateStatistics_filter pc pe (take (Suc i) es) child m0 \<and>
      (\<forall>r. PropagateStatistics_filter pc pe es child m0 = Inr r \<longrightarrow>
           node_ptr r = LogicalEmptyResult \<and> return_value r = Some NodeStatistics_0_0) \<and>
      ((\<exists>r0. PropagateStatistics_filter pc pe (take i es) child m0 = Inr r0) \<longrightarrow>
       (\<exists>r. PropagateStatistics_filter pc pe es child m0 = Inr r)))"
proof (intro conjI impI)
  assume a: "i < length es \<and>
    (ExpressionIsConstant (fst (pe (es ! i) m)) (Value_BOOLEAN False) = Inr True \<or>
     ExpressionIsConstantOrNull (fst (pe (es ! i) m)) (Value_BOOLEAN False))"
  then have d: "drop i es = es ! i # drop (Suc i) es"
    by (simp add: Cons_nth_drop_Suc)
  have "filter_loop pe ns child' i es m =
        filter_scan pe ns child' (take i es) (es ! i # drop (Suc i) es) m"
    using a d filter_loop_scan[of i es pe ns child' m] by simp
  then show "filter_loop pe ns child' i es m =
        Inr \<lparr>node_ptr = LogicalEmptyResult, return_value = Some NodeStatistics_0_0,
             statistics_after = snd (pe (es ! i) m)\<rparr>"
    using a by (simp add: filter_step_false)
next
  assume a: "i < length es \<and>
    (\<forall>m. ExpressionIsConstant (fst (pe (es ! i) m)) (Value_BOOLEAN False) = Inr True \<or>
         ExpressionIsConstantOrNull (fst (pe (es ! i) m)) (Value_BOOLEAN False))"
  then have f: "\<forall>m. ExpressionIsConstant (fst (pe (es ! i) m)) (Value_BOOLEAN False) = Inr True \<or>
         ExpressionIsConstantOrNull (fst (pe (es ! i) m)) (Value_BOOLEAN False)"
    by simp
  obtain ns0 child0 m1 where pc: "pc child m0 = (ns0, child0, m1)" by (cases "pc child m0")
  have es: "es = take i es @ es ! i # drop (Suc i) es"
    using a by (simp add: id_take_nth_drop)
  have tk: "take (Suc i) es = take i es @ [es ! i]"
    using a by (simp add: take_Suc_conv_app_nth)
  have s1: "filter_scan pe ns0 child0 [] es m1 = filter_scan pe ns0 child0 [] (take (Suc i) es) m1"
    using filter_scan_suffix[where pe=pe and f="es ! i" and ns=ns0 and child=child0 and kept="[]"
            and xs="take i es" and ys="drop (Suc i) es" and m=m1] f es tk
    by simp
  have s2: "\<And>r. filter_scan pe ns0 child0 [] es m1 = Inr r \<Longrightarrow>
             node_ptr r = LogicalEmptyResult \<and> return_value r = Some NodeStatistics_0_0"
    using filter_scan_sentinel[where pe=pe and f="es ! i" and ns=ns0 and child=child0 and kept="[]"
            and xs="take i es" and ys="drop (Suc i) es" and m=m1] f es
    by simp
  have s3: "\<And>r0. filter_scan pe ns0 child0 [] (take i es) m1 = Inr r0 \<Longrightarrow>
             \<exists>r. filter_scan pe ns0 child0 [] es m1 = Inr r"
    using filter_scan_no_abort[where pe=pe and f="es ! i" and ns=ns0 and child=child0 and kept="[]"
            and xs="take i es" and ys="drop (Suc i) es" and m=m1] f es
    by simp
  show "PropagateStatistics_filter pc pe es child m0 =
        PropagateStatistics_filter pc pe (take (Suc i) es) child m0"
    using s1 pc by (simp add: PropagateStatistics_filter_scan[of pc child m0 ns0 child0 m1])
  show "\<forall>r. PropagateStatistics_filter pc pe es child m0 = Inr r \<longrightarrow>
           node_ptr r = LogicalEmptyResult \<and> return_value r = Some NodeStatistics_0_0"
    using s2 pc by (auto simp: PropagateStatistics_filter_scan[of pc child m0 ns0 child0 m1])
  assume "\<exists>r0. PropagateStatistics_filter pc pe (take i es) child m0 = Inr r0"
  then show "\<exists>r. PropagateStatistics_filter pc pe es child m0 = Inr r"
    using s3 pc
    by (auto simp: PropagateStatistics_filter_scan[of pc child m0 ns0 child0 m1] split: if_splits)
qed

theorem false_predicate_empties_filter_witness:
  "PropagateStatistics_filter
     (\<lambda>c m. (Some \<lparr>max_cardinality = 1000, exact = False\<rparr>, c, m)) (\<lambda>e m. (e, m))
     [BoundConstantExpression (Value_BOOLEAN False),
      BoundComparisonExpression COMPARE_GREATERTHAN (BoundColumnRefExpression (0, 0))
        (BoundConstantExpression (Value INTEGER (Some 50)))]
     (OtherOperator 0)
     (map_of [((0, 0), \<lparr>stats_type = INTEGER, validity_stats = Some (ValidityStatistics True),
                         min_value = Value INTEGER (Some 0), max_value = Value INTEGER (Some 100)\<rparr>)]) =
   Inr \<lparr>node_ptr = LogicalEmptyResult, return_value = Some NodeStatistics_0_0,
        statistics_after = map_of [((0, 0), \<lparr>stats_type = INTEGER, validity_stats = Some (ValidityStatistics True),
                         min_value = Value INTEGER (Some 0), max_value = Value INTEGER (Some 100)\<rparr>)]\<rparr> \<and>
   filter_loop (\<lambda>e m. (e, m)) (Some \<lparr>max_cardinality = 1000, exact = False\<rparr>) (OtherOperator 0) 0
     [BoundConstantExpression (Value_BOOLEAN False),
      BoundComparisonExpression COMPARE_GREATERTHAN (BoundColumnRefExpression (0, 0))
        (BoundConstantExpression (Value INTEGER (Some 50)))]
     (map_of [((0, 0), \<lparr>stats_type = INTEGER, validity_stats = Some (ValidityStatistics True),
                         min_value = Value INTEGER (Some 0), max_value = Value INTEGER (Some 100)\<rparr>)]) =
   Inr \<lparr>node_ptr = LogicalEmptyResult, return_value = Some NodeStatistics_0_0,
        statistics_after = map_of [((0, 0), \<lparr>stats_type = INTEGER, validity_stats = Some (ValidityStatistics True),
                         min_value = Value INTEGER (Some 0), max_value = Value INTEGER (Some 100)\<rparr>)]\<rparr>"
  using false_predicate_empties_filter
    [where i=0 and pe="\<lambda>e m. (e, m)"
       and pc="\<lambda>c m. (Some \<lparr>max_cardinality = 1000, exact = False\<rparr>, c, m)"
       and es="[BoundConstantExpression (Value_BOOLEAN False),
                BoundComparisonExpression COMPARE_GREATERTHAN (BoundColumnRefExpression (0, 0))
                  (BoundConstantExpression (Value INTEGER (Some 50)))]"
       and child="OtherOperator 0" and child'="OtherOperator 0"
       and ns="Some \<lparr>max_cardinality = 1000, exact = False\<rparr>"
       and m="map_of [((0, 0), \<lparr>stats_type = INTEGER, validity_stats = Some (ValidityStatistics True),
                         min_value = Value INTEGER (Some 0), max_value = Value INTEGER (Some 100)\<rparr>)]"
       and ?m0.0="map_of [((0, 0), \<lparr>stats_type = INTEGER, validity_stats = Some (ValidityStatistics True),
                         min_value = Value INTEGER (Some 0), max_value = Value INTEGER (Some 100)\<rparr>)]"]
  by (simp add: PropagateStatistics_filter_scan filter_step_def Value_BOOLEAN_def)

text \<open>
  C5. Whenever the call returns and has not put the zero-row sentinel into the slot (the
  child is not the sentinel and no predicate folds to false), the statistics it returns
  are exactly the statistics that propagation returned for the child; in particular the
  maximum-cardinality bound is the child's.
\<close>

theorem surviving_filter_returns_child_statistics:
  assumes "PropagateStatistics_filter pc pe es child m = Inr r"
      and "node_ptr r \<noteq> LogicalEmptyResult"
  shows "return_value r = fst (pc child m) \<and>
         map_option max_cardinality (return_value r) =
           map_option max_cardinality (fst (pc child m))"
proof -
  obtain ns child' m0 where pc: "pc child m = (ns, child', m0)" by (cases "pc child m")
  have "return_value r = ns"
    using assms filter_scan_returns_node_stats[of pe ns child' "[]" es m0 r]
    using pc by (auto simp: PropagateStatistics_filter_scan[of pc child m ns child' m0] split: if_splits)
  then show ?thesis using pc by simp
qed

theorem surviving_filter_returns_child_statistics_witness:
  "PropagateStatistics_filter
     (\<lambda>c m. (Some \<lparr>max_cardinality = 1000, exact = False\<rparr>, c, m)) (\<lambda>e m. (e, m))
     [BoundComparisonExpression COMPARE_GREATERTHAN (BoundColumnRefExpression (0, 0))
        (BoundConstantExpression (Value INTEGER (Some 50)))]
     (OtherOperator 0)
     (map_of [((0, 0), \<lparr>stats_type = INTEGER, validity_stats = Some (ValidityStatistics True),
                         min_value = Value INTEGER (Some 0), max_value = Value INTEGER (Some 100)\<rparr>)]) =
   Inr \<lparr>node_ptr = LogicalFilter
          [BoundComparisonExpression COMPARE_GREATERTHAN (BoundColumnRefExpression (0, 0))
             (BoundConstantExpression (Value INTEGER (Some 50)))] (OtherOperator 0),
        return_value = Some \<lparr>max_cardinality = 1000, exact = False\<rparr>,
        statistics_after =
          map_of [((0, 0), \<lparr>stats_type = INTEGER, validity_stats = Some (ValidityStatistics False),
                         min_value = Value INTEGER (Some 50), max_value = Value INTEGER (Some 100)\<rparr>)]\<rparr> \<and>
   return_value \<lparr>node_ptr = LogicalFilter
          [BoundComparisonExpression COMPARE_GREATERTHAN (BoundColumnRefExpression (0, 0))
             (BoundConstantExpression (Value INTEGER (Some 50)))] (OtherOperator 0),
        return_value = Some \<lparr>max_cardinality = 1000, exact = False\<rparr>,
        statistics_after =
          map_of [((0, 0), \<lparr>stats_type = INTEGER, validity_stats = Some (ValidityStatistics False),
                         min_value = Value INTEGER (Some 50), max_value = Value INTEGER (Some 100)\<rparr>)]\<rparr> =
   fst ((\<lambda>c m. (Some \<lparr>max_cardinality = 1000, exact = False\<rparr>, c, m)) (OtherOperator 0)
     (map_of [((0, 0), \<lparr>stats_type = INTEGER, validity_stats = Some (ValidityStatistics True),
                         min_value = Value INTEGER (Some 0), max_value = Value INTEGER (Some 100)\<rparr>)]))"
  using surviving_filter_returns_child_statistics
    [where pe="\<lambda>e m. (e, m)"
       and pc="\<lambda>c m. (Some \<lparr>max_cardinality = 1000, exact = False\<rparr>, c, m)"
       and es="[BoundComparisonExpression COMPARE_GREATERTHAN (BoundColumnRefExpression (0, 0))
                  (BoundConstantExpression (Value INTEGER (Some 50)))]"
       and child="OtherOperator 0"
       and m="map_of [((0, 0), \<lparr>stats_type = INTEGER, validity_stats = Some (ValidityStatistics True),
                         min_value = Value INTEGER (Some 0), max_value = Value INTEGER (Some 100)\<rparr>)]"
       and r="\<lparr>node_ptr = LogicalFilter
          [BoundComparisonExpression COMPARE_GREATERTHAN (BoundColumnRefExpression (0, 0))
             (BoundConstantExpression (Value INTEGER (Some 50)))] (OtherOperator 0),
        return_value = Some \<lparr>max_cardinality = 1000, exact = False\<rparr>,
        statistics_after =
          map_of [((0, 0), \<lparr>stats_type = INTEGER, validity_stats = Some (ValidityStatistics False),
                         min_value = Value INTEGER (Some 50), max_value = Value INTEGER (Some 100)\<rparr>)]\<rparr>"]
  by (simp add: PropagateStatistics_filter_scan filter_step_def Value_BOOLEAN_def
        UpdateFilterStatistics_comparison_column_constant UpdateFilterStatistics_constant_def
        IsNull_def)

text \<open>
  C9. When the predicate at the index is proven literal true, it is erased and the loop
  goes on at the same index, where the predicate that followed it now stands, so no
  predicate is skipped; when the erase empties the list, the slot receives the child and
  the call returns the child's statistics with the store as the erased predicate's
  propagation left it. A filter whose predicates are all proven true, such as \<open>[TRUE]\<close>,
  becomes exactly its child, after every predicate has been propagated once, in order.
\<close>

theorem true_predicates_are_erased:
  "(i < length es \<and> ExpressionIsConstant (fst (pe (es ! i) m)) (Value_BOOLEAN True) = Inr True \<longrightarrow>
      filter_loop pe ns child i es m =
        (if take i es @ drop (Suc i) es = []
         then Inr \<lparr>node_ptr = child, return_value = ns, statistics_after = snd (pe (es ! i) m)\<rparr>
         else filter_loop pe ns child i (take i es @ drop (Suc i) es) (snd (pe (es ! i) m)))) \<and>
   (Suc i < length es \<longrightarrow> (take i es @ drop (Suc i) es) ! i = es ! Suc i) \<and>
   (es \<noteq> [] \<and>
    (\<forall>e\<in>set es. \<forall>m. ExpressionIsConstant (fst (pe e m)) (Value_BOOLEAN True) = Inr True) \<and>
    fst (snd (pc child0 m0)) \<noteq> LogicalEmptyResult \<longrightarrow>
      PropagateStatistics_filter pc pe es child0 m0 =
        Inr \<lparr>node_ptr = fst (snd (pc child0 m0)), return_value = fst (pc child0 m0),
             statistics_after = foldl (\<lambda>m e. snd (pe e m)) (snd (snd (pc child0 m0))) es\<rparr>)"
proof (intro conjI impI)
  assume a: "i < length es \<and>
             ExpressionIsConstant (fst (pe (es ! i) m)) (Value_BOOLEAN True) = Inr True"
  obtain c m1 where pe: "pe (es ! i) m = (c, m1)" by (cases "pe (es ! i) m")
  show "filter_loop pe ns child i es m =
        (if take i es @ drop (Suc i) es = []
         then Inr \<lparr>node_ptr = child, return_value = ns, statistics_after = snd (pe (es ! i) m)\<rparr>
         else filter_loop pe ns child i (take i es @ drop (Suc i) es) (snd (pe (es ! i) m)))"
    apply (subst filter_loop.simps)
    using a pe by (simp add: Let_def)
next
  assume "Suc i < length es"
  then show "(take i es @ drop (Suc i) es) ! i = es ! Suc i"
    by (simp add: nth_append)
next
  assume a: "es \<noteq> [] \<and>
    (\<forall>e\<in>set es. \<forall>m. ExpressionIsConstant (fst (pe e m)) (Value_BOOLEAN True) = Inr True) \<and>
    fst (snd (pc child0 m0)) \<noteq> LogicalEmptyResult"
  obtain ns' child' m' where pc: "pc child0 m0 = (ns', child', m')" by (cases "pc child0 m0")
  show "PropagateStatistics_filter pc pe es child0 m0 =
        Inr \<lparr>node_ptr = fst (snd (pc child0 m0)), return_value = fst (pc child0 m0),
             statistics_after = foldl (\<lambda>m e. snd (pe e m)) (snd (snd (pc child0 m0))) es\<rparr>"
    using a pc filter_scan_all_true[of es pe ns' child' m']
    by (simp add: PropagateStatistics_filter_scan[of pc child0 m0 ns' child' m'])
qed

theorem true_predicates_are_erased_witness:
  "PropagateStatistics_filter
     (\<lambda>c m. (Some \<lparr>max_cardinality = 1000, exact = False\<rparr>, c, m)) (\<lambda>e m. (e, m))
     [BoundConstantExpression (Value_BOOLEAN True)] (OtherOperator 0) (map_of []) =
   Inr \<lparr>node_ptr = OtherOperator 0,
        return_value = Some \<lparr>max_cardinality = 1000, exact = False\<rparr>,
        statistics_after = map_of []\<rparr> \<and>
   filter_loop (\<lambda>e m. (e, m)) None (OtherOperator 0) 0
     [BoundConstantExpression (Value_BOOLEAN True)] (map_of []) =
   Inr \<lparr>node_ptr = OtherOperator 0, return_value = None, statistics_after = map_of []\<rparr> \<and>
   filter_loop (\<lambda>e m. (e, m)) None (OtherOperator 0) 0
     [BoundConstantExpression (Value_BOOLEAN True), BoundColumnRefExpression (0, 0)] (map_of []) =
   filter_loop (\<lambda>e m. (e, m)) None (OtherOperator 0) 0
     [BoundColumnRefExpression (0, 0)] (map_of []) \<and>
   (take 0 [BoundConstantExpression (Value_BOOLEAN True), BoundColumnRefExpression (0, 0)] @
    drop (Suc 0) [BoundConstantExpression (Value_BOOLEAN True), BoundColumnRefExpression (0, 0)]) ! 0 =
   [BoundConstantExpression (Value_BOOLEAN True), BoundColumnRefExpression (0, 0)] ! Suc 0 \<and>
   PropagateStatistics_filter
     (\<lambda>c m. (Some \<lparr>max_cardinality = 1000, exact = False\<rparr>, c, m)) (\<lambda>e m. (e, m))
     [BoundConstantExpression (Value_BOOLEAN True),
      BoundComparisonExpression COMPARE_GREATERTHAN (BoundColumnRefExpression (0, 0))
        (BoundConstantExpression (Value INTEGER (Some 50))),
      BoundConstantExpression (Value_BOOLEAN True),
      BoundComparisonExpression COMPARE_LESSTHAN (BoundColumnRefExpression (0, 0))
        (BoundConstantExpression (Value INTEGER (Some 80)))]
     (OtherOperator 0)
     (map_of [((0, 0), \<lparr>stats_type = INTEGER, validity_stats = Some (ValidityStatistics True),
                         min_value = Value INTEGER (Some 0), max_value = Value INTEGER (Some 100)\<rparr>)]) =
   Inr \<lparr>node_ptr = LogicalFilter
          [BoundComparisonExpression COMPARE_GREATERTHAN (BoundColumnRefExpression (0, 0))
             (BoundConstantExpression (Value INTEGER (Some 50))),
           BoundComparisonExpression COMPARE_LESSTHAN (BoundColumnRefExpression (0, 0))
             (BoundConstantExpression (Value INTEGER (Some 80)))] (OtherOperator 0),
        return_value = Some \<lparr>max_cardinality = 1000, exact = False\<rparr>,
        statistics_after =
          map_of [((0, 0), \<lparr>stats_type = INTEGER, validity_stats = Some (ValidityStatistics False),
                         min_value = Value INTEGER (Some 50), max_value = Value INTEGER (Some 80)\<rparr>)]\<rparr>"
  using true_predicates_are_erased
    [where i=0 and pe="\<lambda>e m. (e, m)"
       and pc="\<lambda>c m. (Some \<lparr>max_cardinality = 1000, exact = False\<rparr>, c, m)"
       and es="[BoundConstantExpression (Value_BOOLEAN True)]"
       and child="OtherOperator 0" and ?child0.0="OtherOperator 0" and ns=None
       and m="map_of []" and ?m0.0="map_of []"]
    true_predicates_are_erased
    [where i=0 and pe="\<lambda>e m. (e, m)"
       and es="[BoundConstantExpression (Value_BOOLEAN True), BoundColumnRefExpression (0, 0)]"
       and child="OtherOperator 0" and ns=None and m="map_of []"]
  by (simp add: Value_BOOLEAN_def PropagateStatistics_filter_scan filter_step_def
        UpdateFilterStatistics_comparison_column_constant UpdateFilterStatistics_constant_def
        IsNull_def)

text \<open>
  C10, as stated, fails. The claim is that a filter with no predicates whose child is not
  the zero-row sentinel stays in place, with the store unchanged. The child is tested
  after its own propagation (lines 212-213), which may rewrite it and update the store.
  Below, \<open>Pair\<close> is the expression propagation that changes nothing,
  \<open>curry (Pair ns)\<close> the child propagation that returns \<open>ns\<close> and changes nothing,
  \<open>curry (Pair ns \<circ> (Pair LogicalEmptyResult \<circ> snd))\<close> the one that returns \<open>ns\<close> and leaves the
  sentinel in the child's place, and \<open>curry (Pair ns \<circ> map_prod id f)\<close> the one that returns \<open>ns\<close>
  and applies \<open>f\<close> to the store. The child \<open>LogicalFilter [FALSE] (OtherOperator 0)\<close> is not
  the sentinel; its own propagation leaves the sentinel and returns the statistics of an
  empty result; with that child propagation the filter without predicates above it is
  replaced by the sentinel as well. And with a child propagation that records column
  \<open>(0, 0)\<close> as non-null, the store after the call differs from the store before it.
\<close>

theorem filter_without_predicates_counterexample:
  "LogicalFilter [BoundConstantExpression (Value_BOOLEAN False)] (OtherOperator 0) \<noteq>
     LogicalEmptyResult \<and>
   PropagateStatistics_filter
     (curry (Pair (Some \<lparr>max_cardinality = 1000, exact = False\<rparr>))) Pair
     [BoundConstantExpression (Value_BOOLEAN False)] (OtherOperator 0)
     (map_of [((0, 0), \<lparr>stats_type = INTEGER, validity_stats = Some (ValidityStatistics True),
                         min_value = Value INTEGER (Some 0), max_value = Value INTEGER (Some 100)\<rparr>)]) =
   Inr \<lparr>node_ptr = LogicalEmptyResult, return_value = Some NodeStatistics_0_0,
        statistics_after = (map_of [((0, 0), \<lparr>stats_type = INTEGER, validity_stats = Some (ValidityStatistics True),
                         min_value = Value INTEGER (Some 0), max_value = Value INTEGER (Some 100)\<rparr>)])\<rparr> \<and>
   PropagateStatistics_filter
     (curry (Pair (Some NodeStatistics_0_0) \<circ> (Pair LogicalEmptyResult \<circ> snd))) Pair
     [] (LogicalFilter [BoundConstantExpression (Value_BOOLEAN False)] (OtherOperator 0))
     (map_of [((0, 0), \<lparr>stats_type = INTEGER, validity_stats = Some (ValidityStatistics True),
                         min_value = Value INTEGER (Some 0), max_value = Value INTEGER (Some 100)\<rparr>)]) =
   Inr \<lparr>node_ptr = LogicalEmptyResult, return_value = Some NodeStatistics_0_0,
        statistics_after = (map_of [((0, 0), \<lparr>stats_type = INTEGER, validity_stats = Some (ValidityStatistics True),
                         min_value = Value INTEGER (Some 0), max_value = Value INTEGER (Some 100)\<rparr>)])\<rparr> \<and>
   PropagateStatistics_filter
     (curry (Pair (Some \<lparr>max_cardinality = 1000, exact = False\<rparr>) \<circ>
             map_prod id (SetStatisticsNotNull (0, 0)))) Pair
     [] (OtherOperator 0)
     (map_of [((0, 0), \<lparr>stats_type = INTEGER, validity_stats = Some (ValidityStatistics True),
                         min_value = Value INTEGER (Some 0), max_value = Value INTEGER (Some 100)\<rparr>)]) =
   Inr \<lparr>node_ptr = LogicalFilter [] (OtherOperator 0),
        return_value = Some \<lparr>max_cardinality = 1000, exact = False\<rparr>,
        statistics_after = (map_of [((0, 0), \<lparr>stats_type = INTEGER, validity_stats = Some (ValidityStatistics False),
                         min_value = Value INTEGER (Some 0), max_value = Value INTEGER (Some 100)\<rparr>)])\<rparr> \<and>
   \<lparr>stats_type = INTEGER, validity_stats = Some (ValidityStatistics False),
    min_value = Value INTEGER (Some 0), max_value = Value INTEGER (Some 100)\<rparr> \<noteq>
   \<lparr>stats_type = INTEGER, validity_stats = Some (ValidityStatistics True),
    min_value = Value INTEGER (Some 0), max_value = Value INTEGER (Some 100)\<rparr>"
  by (simp add: PropagateStatistics_filter_scan filter_step_def Value_BOOLEAN_def
        SetStatisticsNotNull_def)

text \<open>
  C10, amended. For a filter whose predicate list is empty on entry and whose child, after
  the child's own propagation, is not the zero-row sentinel, the call leaves the filter
  node in its slot (with no predicates, over the child as its propagation left it; it is
  neither removed in favour of the child nor replaced by the sentinel), makes no update of
  its own to the store, which is as the child's propagation left it, and returns the
  child's statistics unchanged.
\<close>

theorem filter_without_predicates:
  assumes "pc child m = (ns, child', m0)"
      and "child' \<noteq> LogicalEmptyResult"
  shows "PropagateStatistics_filter pc pe [] child m =
         Inr \<lparr>node_ptr = LogicalFilter [] child', return_value = ns, statistics_after = m0\<rparr>"
  using assms by (simp add: PropagateStatistics_filter_scan)

theorem filter_without_predicates_witness:
  "OtherOperator 0 \<noteq> LogicalEmptyResult \<and>
   PropagateStatistics_filter
     (\<lambda>c m. (Some \<lparr>max_cardinality = 1000, exact = False\<rparr>, c, m)) (\<lambda>e m. (e, m))
     [] (OtherOperator 0)
     (map_of [((0, 0), \<lparr>stats_type = INTEGER, validity_stats = Some (ValidityStatistics True),
                         min_value = Value INTEGER (Some 0), max_value = Value INTEGER (Some 100)\<rparr>)]) =
   Inr \<lparr>node_ptr = LogicalFilter [] (OtherOperator 0),
        return_value = Some \<lparr>max_cardinality = 1000, exact = False\<rparr>,
        statistics_after =
          map_of [((0, 0), \<lparr>stats_type = INTEGER, validity_stats = Some (ValidityStatistics True),
                         min_value = Value INTEGER (Some 0), max_value = Value INTEGER (Some 100)\<rparr>)]\<rparr>"
  using filter_without_predicates
    [where pe="\<lambda>e m. (e, m)"
       and pc="\<lambda>c m. (Some \<lparr>max_cardinality = 1000, exact = False\<rparr>, c, m)"
       and child="OtherOperator 0" and child'="OtherOperator 0"
       and ns="Some \<lparr>max_cardinality = 1000, exact = False\<rparr>"
       and m="map_of [((0, 0), \<lparr>stats_type = INTEGER, validity_stats = Some (ValidityStatistics True),
                         min_value = Value INTEGER (Some 0), max_value = Value INTEGER (Some 100)\<rparr>)]"
       and ?m0.0="map_of [((0, 0), \<lparr>stats_type = INTEGER, validity_stats = Some (ValidityStatistics True),
                         min_value = Value INTEGER (Some 0), max_value = Value INTEGER (Some 100)\<rparr>)]"]
  by simp

end
